theory Spec2Isabelle
  imports Complex_Main
begin

section \<open>The accessibility panel of js/accessibility.js\<close>

text \<open>
  A shallow embedding of the second script of \<^verbatim>\<open>js/accessibility.js\<close> (the
  accessibility panel) and of \<^verbatim>\<open>announce\<close>, which both scripts of the file
  define with the same body. Every mutable variable of the script and every piece of the
  page it writes is a field of the record \<open>page\<close>; every function of the script is a
  function from \<open>page\<close> to \<open>page\<close>.

  Conventions.
  \<^item> A JavaScript string is a \<open>string\<close>; a character beyond ASCII that the script
    writes is given by its code unit (\<open>CHR 0xF3\<close> is o with acute accent).
  \<^item> A value read from the storage is any JSON value. A number is the rational that the
    double denotes; the script's arithmetic on it is exact where the exact result is a
    double, and the platform's otherwise.
  \<^item> The conversions of the language that the script leaves to the platform (a string,
    array or object to a number; a fraction or an array to a string; a sum or product
    that is rounded) are the fields of a record \<open>platform\<close>, a parameter of the model,
    and so is what the parser of markup makes of an attribute whose text has a
    character that the parser gives a meaning.
  \<^item> The root font size is the number \<open>s\<close> of the last assignment of
    \<open>(1 + s * 0.1) + 'rem'\<close> to it; what the style makes of an assigned string that is
    not a length is outside the model.
\<close>

subsection \<open>Strings\<close>

text \<open>Number to string conversion, for an integer: decimal digits, a minus sign first.\<close>

fun show_nat :: "nat \<Rightarrow> string" where
  "show_nat n = (if n < 10 then [''0123456789'' ! n]
                 else show_nat (n div 10) @ [''0123456789'' ! (n mod 10)])"

declare show_nat.simps [simp del]

definition show_int :: "int \<Rightarrow> string" where
  "show_int i = (if i < 0 then ''-'' @ show_nat (nat (- i)) else show_nat (nat i))"

definition str_bool :: "bool \<Rightarrow> string" where
  "str_bool b = (if b then ''true'' else ''false'')"

text \<open>
  \<^verbatim>\<open>String.prototype.trim\<close>: white space is tab, line feed, vertical tab, form feed,
  carriage return, space and no-break space (the white space among the first 256 code
  units).
\<close>

definition is_space :: "char \<Rightarrow> bool" where
  "is_space c = (c \<in> set [CHR 0x09, CHR 0x0A, CHR 0x0B, CHR 0x0C, CHR 0x0D, CHR 0x20, CHR 0xA0])"

definition trim :: "string \<Rightarrow> string" where
  "trim s = rev (dropWhile is_space (rev (dropWhile is_space s)))"

text \<open>\<^verbatim>\<open>toLowerCase\<close>, on the letters A to Z: a tag name has no other capital letters.\<close>

definition lower_char :: "char \<Rightarrow> char" where
  "lower_char c =
     (case map_of (zip ''ABCDEFGHIJKLMNOPQRSTUVWXYZ'' ''abcdefghijklmnopqrstuvwxyz'') c of
        Some d \<Rightarrow> d
      | None \<Rightarrow> c)"

definition toLowerCase :: "string \<Rightarrow> string" where
  "toLowerCase s = map lower_char s"

text \<open>\<^verbatim>\<open>a || b\<close> on strings, and on an attribute that may be missing.\<close>

definition or_str :: "string \<Rightarrow> string \<Rightarrow> string" where
  "or_str a b = (if a \<noteq> [] then a else b)"

definition or_attr :: "string option \<Rightarrow> string \<Rightarrow> string" where
  "or_attr a b = (case a of Some v \<Rightarrow> or_str v b | None \<Rightarrow> b)"

text \<open>The truthy value of an attribute: present and not the empty string.\<close>

definition truthy_attr :: "string option \<Rightarrow> string option" where
  "truthy_attr a = (case a of Some v \<Rightarrow> (if v \<noteq> [] then Some v else None) | None \<Rightarrow> None)"

subsection \<open>Values and conversions\<close>

text \<open>
  A JSON value, as \<^verbatim>\<open>JSON.parse\<close> gives it. A value of the script is a JSON value
  or one of the three numbers that JSON does not have; a number is a finite one or one
  of these three.
\<close>

datatype json =
    JNull
  | JBool bool
  | JNum rat
  | JStr string
  | JArr "json list"
  | JObj "(string \<times> json) list"

datatype special = NaN | PosInfinity | NegInfinity

datatype jsval = Val json | Special special

datatype num = Fin rat | Spec special

definition of_num :: "num \<Rightarrow> jsval" where
  "of_num n = (case n of Fin r \<Rightarrow> Val (JNum r) | Spec x \<Rightarrow> Special x)"

text \<open>
  What the platform computes and the script does not: the number of a string, array or
  object; the string of a number that is not a short integer, and of an array; a sum or
  product whose exact value is not known to be a double; the value of an attribute
  whose text between the double quotes of the markup is not plain.
\<close>

record platform =
  number_of :: "json \<Rightarrow> num"
  string_of :: "json \<Rightarrow> string"
  rounded_sum :: "num \<Rightarrow> num \<Rightarrow> num"
  rounded_product :: "num \<Rightarrow> num \<Rightarrow> num"
  parsed_attribute :: "string \<Rightarrow> string"

definition truthy :: "json \<Rightarrow> bool" where
  "truthy v =
     (case v of
        JNull \<Rightarrow> False
      | JBool b \<Rightarrow> b
      | JNum r \<Rightarrow> r \<noteq> 0
      | JStr s \<Rightarrow> s \<noteq> []
      | JArr _ \<Rightarrow> True
      | JObj _ \<Rightarrow> True)"

definition ToNumber :: "platform \<Rightarrow> jsval \<Rightarrow> num" where
  "ToNumber P v =
     (case v of
        Special x \<Rightarrow> Spec x
      | Val JNull \<Rightarrow> Fin 0
      | Val (JBool b) \<Rightarrow> Fin (if b then 1 else 0)
      | Val (JNum r) \<Rightarrow> Fin r
      | Val j \<Rightarrow> number_of P j)"

text \<open>An integer below \<open>10 ^ 21\<close> in size is printed in decimal digits.\<close>

definition ToString :: "platform \<Rightarrow> json \<Rightarrow> string" where
  "ToString P v =
     (case v of
        JNull \<Rightarrow> ''null''
      | JBool b \<Rightarrow> str_bool b
      | JNum r \<Rightarrow> (if of_int \<lfloor>r\<rfloor> = r \<and> \<bar>r\<bar> < 10 ^ 21 then show_int \<lfloor>r\<rfloor> else string_of P (JNum r))
      | JStr s \<Rightarrow> s
      | JArr xs \<Rightarrow> string_of P (JArr xs)
      | JObj _ \<Rightarrow> ''[object Object]'')"

definition num_string :: "platform \<Rightarrow> num \<Rightarrow> string" where
  "num_string P n =
     (case n of
        Fin r \<Rightarrow> ToString P (JNum r)
      | Spec NaN \<Rightarrow> ''NaN''
      | Spec PosInfinity \<Rightarrow> ''Infinity''
      | Spec NegInfinity \<Rightarrow> ''-Infinity'')"

text \<open>
  A rational with at most twenty binary digits after the point and at most 53 before
  and after it together is a double; a sum or product of doubles with such an exact
  value is that value.
\<close>

definition is_double :: "rat \<Rightarrow> bool" where
  "is_double r = (of_int \<lfloor>r * 2 ^ 20\<rfloor> = r * 2 ^ 20 \<and> \<bar>r * 2 ^ 20\<bar> \<le> 2 ^ 53)"

definition js_add :: "platform \<Rightarrow> num \<Rightarrow> num \<Rightarrow> num" where
  "js_add P a b =
     (case (a, b) of
        (Fin x, Fin y) \<Rightarrow> (if is_double (x + y) then Fin (x + y) else rounded_sum P a b)
      | _ \<Rightarrow> rounded_sum P a b)"

definition js_mul :: "platform \<Rightarrow> num \<Rightarrow> num \<Rightarrow> num" where
  "js_mul P a b =
     (case (a, b) of
        (Fin x, Fin y) \<Rightarrow> (if is_double (x * y) then Fin (x * y) else rounded_product P a b)
      | _ \<Rightarrow> rounded_product P a b)"

text \<open>The comparisons of a number with a finite one; with \<^verbatim>\<open>NaN\<close> every one is false.\<close>

definition js_ge :: "num \<Rightarrow> rat \<Rightarrow> bool" where
  "js_ge n c = (case n of Fin r \<Rightarrow> r \<ge> c | Spec PosInfinity \<Rightarrow> True | Spec _ \<Rightarrow> False)"

definition js_le :: "num \<Rightarrow> rat \<Rightarrow> bool" where
  "js_le n c = (case n of Fin r \<Rightarrow> r \<le> c | Spec NegInfinity \<Rightarrow> True | Spec _ \<Rightarrow> False)"

definition js_gt :: "num \<Rightarrow> rat \<Rightarrow> bool" where
  "js_gt n c = (case n of Fin r \<Rightarrow> r > c | Spec PosInfinity \<Rightarrow> True | Spec _ \<Rightarrow> False)"

subsection \<open>The preference record and its storage\<close>

text \<open>
  The preference object: its seven schema properties and a map \<open>others\<close> of its other
  own properties. \<open>fontScale\<close> is what was loaded or what \<^verbatim>\<open>++\<close> and \<^verbatim>\<open>--\<close> made
  of it; the other properties are what was loaded or what the script assigned, a
  boolean or a string. A stored object is the same with each schema property optional.
\<close>

record prefs =
  fontScale :: jsval
  contrast :: json
  spacing :: json
  dyslexia :: json
  highlightLinks :: json
  bigCursor :: json
  readerEnabled :: json
  others :: "string \<rightharpoonup> json"

record partial_prefs =
  p_fontScale :: "json option"
  p_contrast :: "json option"
  p_spacing :: "json option"
  p_dyslexia :: "json option"
  p_highlightLinks :: "json option"
  p_bigCursor :: "json option"
  p_readerEnabled :: "json option"
  p_others :: "string \<rightharpoonup> json"

definition defaults :: prefs where
  "defaults = \<lparr>fontScale = Val (JNum 0), contrast = JStr ''normal'', spacing = JBool False,
               dyslexia = JBool False, highlightLinks = JBool False, bigCursor = JBool False,
               readerEnabled = JBool False, others = Map.empty\<rparr>"

definition empty_object :: partial_prefs where
  "empty_object = \<lparr>p_fontScale = None, p_contrast = None, p_spacing = None,
                   p_dyslexia = None, p_highlightLinks = None, p_bigCursor = None,
                   p_readerEnabled = None, p_others = Map.empty\<rparr>"

text \<open>
  What the slot \<^verbatim>\<open>ep_a11y\<close> of the storage holds, by what \<^verbatim>\<open>JSON.parse\<close> makes
  of it: no item (\<^verbatim>\<open>getItem\<close> gives \<^verbatim>\<open>null\<close>, which parses to \<^verbatim>\<open>null\<close>), a text
  that does not parse, a text that parses to a falsy value, or a text that parses to a
  truthy value, given by its own enumerable properties. The storage service can refuse
  a read or a write by throwing.
\<close>

datatype item = NoItem | BadText | FalsyJson | Props partial_prefs

record storage =
  item :: item
  get_throws :: bool
  set_throws :: bool

text \<open>
  The own properties of the object that \<^verbatim>\<open>JSON.stringify\<close> writes and
  \<^verbatim>\<open>JSON.parse\<close> reads back: every property of the record, with \<^verbatim>\<open>null\<close> for a
  number that JSON does not have.
\<close>

definition json_of :: "jsval \<Rightarrow> json" where
  "json_of v = (case v of Val j \<Rightarrow> j | Special _ \<Rightarrow> JNull)"

definition stringify :: "prefs \<Rightarrow> partial_prefs" where
  "stringify p = \<lparr>p_fontScale = Some (json_of (fontScale p)), p_contrast = Some (contrast p),
                  p_spacing = Some (spacing p), p_dyslexia = Some (dyslexia p),
                  p_highlightLinks = Some (highlightLinks p),
                  p_bigCursor = Some (bigCursor p),
                  p_readerEnabled = Some (readerEnabled p), p_others = others p\<rparr>"

definition savePrefs :: "prefs \<Rightarrow> storage \<Rightarrow> storage" where
  "savePrefs p st = (if set_throws st then st else st\<lparr>item := Props (stringify p)\<rparr>)"

definition loadPrefs :: "storage \<Rightarrow> partial_prefs" where
  "loadPrefs st =
     (if get_throws st then empty_object
      else case item st of
             NoItem \<Rightarrow> empty_object
           | BadText \<Rightarrow> empty_object
           | FalsyJson \<Rightarrow> empty_object
           | Props ob \<Rightarrow> ob)"

text \<open>
  \<^verbatim>\<open>Object.assign({}, d, ob)\<close>: the properties of \<open>d\<close>, then those of \<open>ob\<close> over them,
  each by an assignment to the new object. The assignment to the key \<^verbatim>\<open>__proto__\<close>
  runs the setter of \<^verbatim>\<open>Object.prototype\<close> and leaves no own property; the
  prototype that it may set is behind the seven own properties that the defaults gave,
  the only ones that the script reads, and \<^verbatim>\<open>JSON.stringify\<close> writes own
  properties only.
\<close>

definition assigned :: "(string \<rightharpoonup> json) \<Rightarrow> (string \<rightharpoonup> json)" where
  "assigned m = m(''__proto__'' := None)"

definition Object_assign :: "prefs \<Rightarrow> partial_prefs \<Rightarrow> prefs" where
  "Object_assign d ob =
     \<lparr>fontScale = (case p_fontScale ob of Some v \<Rightarrow> Val v | None \<Rightarrow> fontScale d),
      contrast = (case p_contrast ob of Some v \<Rightarrow> v | None \<Rightarrow> contrast d),
      spacing = (case p_spacing ob of Some v \<Rightarrow> v | None \<Rightarrow> spacing d),
      dyslexia = (case p_dyslexia ob of Some v \<Rightarrow> v | None \<Rightarrow> dyslexia d),
      highlightLinks = (case p_highlightLinks ob of Some v \<Rightarrow> v | None \<Rightarrow> highlightLinks d),
      bigCursor = (case p_bigCursor ob of Some v \<Rightarrow> v | None \<Rightarrow> bigCursor d),
      readerEnabled = (case p_readerEnabled ob of Some v \<Rightarrow> v | None \<Rightarrow> readerEnabled d),
      others = assigned (others d) ++ assigned (p_others ob)\<rparr>"

subsection \<open>The state of the page\<close>

text \<open>
  The root element: its inline font size (the number \<open>s\<close> of \<open>(1 + s * 0.1) + 'rem'\<close>),
  its contrast marker and its class list.
\<close>

record root =
  fontSize :: num
  data_contrast :: string
  classList :: "string list"

text \<open>
  The speech service holds a queue of utterances, the first being spoken:
  \<^verbatim>\<open>speak\<close> appends one and \<^verbatim>\<open>cancel\<close> empties the queue. The rate 0.95 is
  kept in hundredths.
\<close>

record utterance =
  u_text :: string
  u_lang :: string
  u_rate :: nat

datatype listener = ReaderFocus | ReaderHover | EscapeKey

text \<open>An element as \<^verbatim>\<open>getLabel\<close> reads it, and the two look-ups it makes in the document.\<close>

record element =
  tagName :: string
  attrs :: "(string \<times> string) list"
  el_id :: string
  placeholder :: string
  el_type :: string
  textContent :: string

text \<open>
  The document: its elements by id, and what \<^verbatim>\<open>querySelector\<close> does with a selector,
  which is to throw for one that is ill-formed and to return the first match otherwise.
\<close>

datatype dom_error = SyntaxError

record dom =
  by_id :: "(string \<times> element) list"
  querySelector :: "string \<Rightarrow> dom_error + element option"

text \<open>
  The controls of the panel, with what the script writes to them. \<open>transitionend\<close>
  counts the one-shot listeners that \<^verbatim>\<open>closePanel\<close> has left on the panel.
\<close>

record toggle =
  is_active :: bool
  aria_pressed :: string
  label_text :: string

record contrast_btn =
  data_value :: string
  cb_active :: bool
  cb_pressed :: string

record panel =
  hidden :: bool
  is_open :: bool
  transitionend :: nat
  btn_reader :: toggle
  btn_spacing :: toggle
  btn_dyslexia :: toggle
  btn_links :: toggle
  btn_cursor :: toggle
  dec_disabled :: bool
  inc_disabled :: bool
  font_val :: string
  contrast_btns :: "contrast_btn list"

record fab =
  aria_expanded :: string
  aria_label :: string

datatype focus = FocusElsewhere | FocusFab | FocusFirstButton

text \<open>A callback waiting for the next animation frame.\<close>

datatype callback = SetText bool string | AddOpenClass

text \<open>
  The page. \<open>panels\<close> holds every panel element that \<^verbatim>\<open>buildPanel\<close> has made,
  by address; \<open>elems_panel\<close> is the address that \<^verbatim>\<open>elems.panel\<close> refers to, the one
  panel in the document; \<open>click_delegation\<close> lists the panel elements that carry the
  delegated click listener. A live region is \<open>None\<close> when the document has no such
  element, and its text otherwise.
\<close>

record page =
  prefs :: prefs
  localStorage :: storage
  html :: root
  readerActive :: bool
  speechSynthesis :: "utterance list option"
  doc_listeners :: "(string \<times> listener) list"
  panels :: "panel list"
  elems_panel :: nat
  elems_fab :: fab
  click_delegation :: "nat list"
  panelOpen :: bool
  focused :: focus
  notificationArea :: "string option"
  alertArea :: "string option"
  raf_queue :: "callback list"

subsection \<open>Applying the preferences to the root element\<close>

text \<open>\<^verbatim>\<open>classList.toggle(c, on)\<close>, where \<open>on\<close> is taken by its truth.\<close>

definition class_toggle :: "string \<Rightarrow> bool \<Rightarrow> string list \<Rightarrow> string list" where
  "class_toggle c on cs =
     (if on then (if c \<in> set cs then cs else cs @ [c]) else removeAll c cs)"

definition applyFontScale :: "platform \<Rightarrow> jsval \<Rightarrow> root \<Rightarrow> root" where
  "applyFontScale P s r = r\<lparr>fontSize := ToNumber P s\<rparr>"

definition applyContrast :: "platform \<Rightarrow> json \<Rightarrow> root \<Rightarrow> root" where
  "applyContrast P m r = r\<lparr>data_contrast := ToString P m\<rparr>"

definition applySpacing :: "json \<Rightarrow> root \<Rightarrow> root" where
  "applySpacing on r = r\<lparr>classList := class_toggle ''a11y-spacing'' (truthy on) (classList r)\<rparr>"

definition applyDyslexia :: "json \<Rightarrow> root \<Rightarrow> root" where
  "applyDyslexia on r = r\<lparr>classList := class_toggle ''a11y-dyslexia'' (truthy on) (classList r)\<rparr>"

definition applyHighlightLinks :: "json \<Rightarrow> root \<Rightarrow> root" where
  "applyHighlightLinks on r =
     r\<lparr>classList := class_toggle ''a11y-highlight-links'' (truthy on) (classList r)\<rparr>"

definition applyBigCursor :: "json \<Rightarrow> root \<Rightarrow> root" where
  "applyBigCursor on r =
     r\<lparr>classList := class_toggle ''a11y-big-cursor'' (truthy on) (classList r)\<rparr>"

definition applyAll :: "platform \<Rightarrow> prefs \<Rightarrow> root \<Rightarrow> root" where
  "applyAll P p r =
     applyBigCursor (bigCursor p)
       (applyHighlightLinks (highlightLinks p)
         (applyDyslexia (dyslexia p)
           (applySpacing (spacing p)
             (applyContrast P (contrast p)
               (applyFontScale P (fontScale p) r)))))"

subsection \<open>Narration\<close>

definition stopSpeech :: "page \<Rightarrow> page" where
  "stopSpeech s =
     (case speechSynthesis s of
        None \<Rightarrow> s
      | Some q \<Rightarrow> s\<lparr>speechSynthesis := Some []\<rparr>)"

definition speak :: "string \<Rightarrow> bool \<Rightarrow> page \<Rightarrow> page" where
  "speak txt force s =
     (if \<not> readerActive s \<and> \<not> force then s
      else if speechSynthesis s = None then s
      else let s1 = stopSpeech s;
               u = \<lparr>u_text = txt, u_lang = ''es-ES'', u_rate = 95\<rparr>
           in s1\<lparr>speechSynthesis := map_option (\<lambda>q. q @ [u]) (speechSynthesis s1)\<rparr>)"

definition getAttribute :: "element \<Rightarrow> string \<Rightarrow> string option" where
  "getAttribute el a = map_of (attrs el) a"

definition getElementById :: "dom \<Rightarrow> string \<Rightarrow> element option" where
  "getElementById d i = map_of (by_id d) i"

text \<open>
  \<^verbatim>\<open>$('label[for="' + el.id + '"]')\<close>: the selector is built from the id as it is,
  and \<^verbatim>\<open>querySelector\<close> throws when that makes it ill-formed.
\<close>

definition label_selector :: "string \<Rightarrow> string" where
  "label_selector i = ''label[for='' @ [CHR 0x22] @ i @ [CHR 0x22] @ '']''"

definition query_label_for :: "dom \<Rightarrow> string \<Rightarrow> dom_error + element option" where
  "query_label_for d i = querySelector d (label_selector i)"

text \<open>The element that a truthy \<^verbatim>\<open>aria-labelledby\<close> attribute refers to, if the document has it.\<close>

definition labelledby_ref :: "dom \<Rightarrow> element \<Rightarrow> element option" where
  "labelledby_ref d el =
     (case truthy_attr (getAttribute el ''aria-labelledby'') of
        Some i \<Rightarrow> getElementById d i
      | None \<Rightarrow> None)"

text \<open>The label, or the exception that the look-up of the \<^verbatim>\<open>label\<close> element throws.\<close>

definition getLabel :: "dom \<Rightarrow> element \<Rightarrow> dom_error + string" where
  "getLabel d el =
     (case truthy_attr (getAttribute el ''aria-label'') of
        Some l \<Rightarrow> Inr l
      | None \<Rightarrow>
          (case labelledby_ref d el of
             Some ref \<Rightarrow> Inr (trim (textContent ref))
           | None \<Rightarrow>
               if tagName el = ''IMG'' then Inr (or_attr (getAttribute el ''alt'') ''imagen'')
               else if tagName el = ''INPUT'' then
                 (case query_label_for d (el_id el) of
                    Inl e \<Rightarrow> Inl e
                  | Inr (Some lbl) \<Rightarrow> Inr (trim (textContent lbl))
                  | Inr None \<Rightarrow> Inr (or_str (placeholder el) (or_str (el_type el) ''campo'')))
               else Inr (or_str (take 180 (trim (textContent el))) (toLowerCase (tagName el)))))"

text \<open>The match of \<^verbatim>\<open>/^h([1-6])$/\<close>: the digit of a heading tag.\<close>

definition heading_level :: "string \<Rightarrow> char option" where
  "heading_level tag =
     (case tag of
        [h, c] \<Rightarrow> (if h = CHR ''h'' \<and> c \<in> set ''123456'' then Some c else None)
      | _ \<Rightarrow> None)"

text \<open>
  The object \<^verbatim>\<open>prefixes\<close> by its own properties; a tag that names a member of
  \<^verbatim>\<open>Object.prototype\<close> is not looked at.
\<close>

definition prefixes :: "(string \<times> string) list" where
  "prefixes = [(''a'', ''Enlace: ''), (''button'', ''Bot'' @ [CHR 0xF3] @ ''n: ''),
               (''select'', ''Selector: '')]"

text \<open>
  The two listeners. An exception of \<^verbatim>\<open>getLabel\<close> ends the listener before it has
  written anything.
\<close>

definition readerFocus :: "dom \<Rightarrow> element \<Rightarrow> page \<Rightarrow> page" where
  "readerFocus d el s =
     (let tag = toLowerCase (tagName el)
      in case getLabel d el of
           Inl e \<Rightarrow> s
         | Inr label \<Rightarrow>
             if label = [] then s
             else let prefix =
                        (case heading_level tag of
                           Some c \<Rightarrow> ''Encabezado nivel '' @ [c] @ '': ''
                         | None \<Rightarrow>
                             (case map_of prefixes tag of
                                Some p \<Rightarrow> p
                              | None \<Rightarrow>
                                  if tag = ''input'' then ''Campo '' @ el_type el @ '': '' else []))
                  in speak (prefix @ label) False s)"

text \<open>The argument is what \<^verbatim>\<open>e.target.closest(...)\<close> finds.\<close>

definition readerHover :: "dom \<Rightarrow> element option \<Rightarrow> page \<Rightarrow> page" where
  "readerHover d closest s =
     (case closest of
        Some el \<Rightarrow> (case getLabel d el of Inl e \<Rightarrow> s | Inr label \<Rightarrow> speak label False s)
      | None \<Rightarrow> s)"

text \<open>
  The listener list of the document has no entry twice: adding a listener that is
  there already changes nothing, removing one takes its entry out.
\<close>

definition addEventListener :: "string \<times> listener \<Rightarrow> (string \<times> listener) list \<Rightarrow> (string \<times> listener) list" where
  "addEventListener l ls = (if l \<in> set ls then ls else ls @ [l])"

definition removeEventListener :: "string \<times> listener \<Rightarrow> (string \<times> listener) list \<Rightarrow> (string \<times> listener) list" where
  "removeEventListener l ls = remove1 l ls"

definition onboarding :: string where
  "onboarding = ''Lector de pantalla activado. Pasa el cursor o navega con Tab para escuchar.''"

definition enableReader :: "bool \<Rightarrow> page \<Rightarrow> page" where
  "enableReader on s =
     (let s1 = s\<lparr>readerActive := on\<rparr>
      in if on then
           speak onboarding True
             (s1\<lparr>doc_listeners :=
                   addEventListener (''mouseover'', ReaderHover)
                     (addEventListener (''focusin'', ReaderFocus) (doc_listeners s1))\<rparr>)
         else
           (let s2 = stopSpeech s1
            in s2\<lparr>doc_listeners :=
                     removeEventListener (''mouseover'', ReaderHover)
                       (removeEventListener (''focusin'', ReaderFocus) (doc_listeners s2))\<rparr>))"

subsection \<open>The label of the font stepper\<close>

definition fontLabel :: "platform \<Rightarrow> jsval \<Rightarrow> string" where
  "fontLabel P s =
     (let n = ToNumber P s;
          pct = js_add P (Fin 100) (js_mul P n (Fin 10))
      in if s = Val (JNum 0) then ''Normal (100%)''
         else (if js_gt n 0 then ''+'' else []) @ num_string P (js_mul P n (Fin 10))
                @ ''% ('' @ num_string P pct @ ''%)'')"

subsection \<open>Building the panel\<close>

text \<open>
  The panel is built as markup and parsed by \<^verbatim>\<open>innerHTML\<close>. A text that the
  template puts between the double quotes of an attribute is the value of the attribute
  when it is plain: it has no double quote, ampersand, carriage return or null
  character. A text that is not plain ends or escapes the attribute; the parsed markup
  then has other attributes or other elements than the template, which the model does
  not follow: it keeps the value that the parser gives the attribute, a parameter.
\<close>

definition plain :: "string \<Rightarrow> bool" where
  "plain s = list_all (\<lambda>c. c \<noteq> CHR 0x22 \<and> c \<noteq> CHR ''&'' \<and> c \<noteq> CHR 0x0D \<and> c \<noteq> CHR 0x00) s"

definition attribute_value :: "platform \<Rightarrow> string \<Rightarrow> string" where
  "attribute_value P s = (if plain s then s else parsed_attribute P s)"

text \<open>The template takes the class and the label by the truth of the value, and the
  pressed state by its string.\<close>

definition buildToggle :: "platform \<Rightarrow> json \<Rightarrow> toggle" where
  "buildToggle P active =
     \<lparr>is_active = truthy active, aria_pressed = attribute_value P (ToString P active),
      label_text = (if truthy active then ''Activado'' else ''Desactivado'')\<rparr>"

definition contrasts :: "string list" where
  "contrasts = [''normal'', ''high'', ''dark'', ''invert'']"

text \<open>
  The fresh floating button and the fresh panel, from the preferences. The text of the
  readout is the label between the line breaks and indentation of the template.
\<close>

definition buildPanel :: "platform \<Rightarrow> prefs \<Rightarrow> fab \<times> panel" where
  "buildPanel P p =
     (\<lparr>aria_expanded = ''false'', aria_label = ''Abrir panel de accesibilidad''\<rparr>,
      \<lparr>hidden = True, is_open = False, transitionend = 0,
       btn_reader = buildToggle P (readerEnabled p),
       btn_spacing = buildToggle P (spacing p),
       btn_dyslexia = buildToggle P (dyslexia p),
       btn_links = buildToggle P (highlightLinks p),
       btn_cursor = buildToggle P (bigCursor p),
       dec_disabled = js_le (ToNumber P (fontScale p)) (- 2),
       inc_disabled = js_ge (ToNumber P (fontScale p)) 2,
       font_val = CHR 0x0A # replicate 12 CHR '' '' @ fontLabel P (fontScale p)
                    @ CHR 0x0A # replicate 10 CHR '' '',
       contrast_btns =
         map (\<lambda>k. \<lparr>data_value = k, cb_active = (contrast p = JStr k),
                     cb_pressed = str_bool (contrast p = JStr k)\<rparr>) contrasts\<rparr>)"

subsection \<open>Opening and closing the panel\<close>

definition upd_panel :: "nat \<Rightarrow> (panel \<Rightarrow> panel) \<Rightarrow> page \<Rightarrow> page" where
  "upd_panel a f s = s\<lparr>panels := (panels s)[a := f (panels s ! a)]\<rparr>"

text \<open>\<^verbatim>\<open>focus()\<close> records the focused element; a focus event is an event of its own below.\<close>

definition openPanel :: "page \<Rightarrow> page" where
  "openPanel s =
     (let s1 = s\<lparr>panelOpen := True\<rparr>;
          s2 = upd_panel (elems_panel s1) (\<lambda>p. p\<lparr>hidden := False\<rparr>) s1;
          s3 = s2\<lparr>elems_fab := \<lparr>aria_expanded = ''true'',
                                   aria_label = ''Cerrar panel de accesibilidad''\<rparr>\<rparr>;
          s4 = s3\<lparr>raf_queue := raf_queue s3 @ [AddOpenClass]\<rparr>
      in s4\<lparr>focused := FocusFirstButton\<rparr>)"

definition closePanel :: "page \<Rightarrow> page" where
  "closePanel s =
     (let s1 = s\<lparr>panelOpen := False\<rparr>;
          s2 = upd_panel (elems_panel s1) (\<lambda>p. p\<lparr>is_open := False\<rparr>) s1;
          s3 = s2\<lparr>elems_fab := \<lparr>aria_expanded = ''false'',
                                   aria_label = ''Abrir panel de accesibilidad''\<rparr>\<rparr>;
          s4 = upd_panel (elems_panel s3) (\<lambda>p. p\<lparr>transitionend := transitionend p + 1\<rparr>) s3
      in s4\<lparr>focused := FocusFab\<rparr>)"

subsection \<open>Live regions\<close>

definition set_region :: "bool \<Rightarrow> string \<Rightarrow> page \<Rightarrow> page" where
  "set_region isAlert txt s =
     (if isAlert then s\<lparr>alertArea := map_option (\<lambda>_. txt) (alertArea s)\<rparr>
      else s\<lparr>notificationArea := map_option (\<lambda>_. txt) (notificationArea s)\<rparr>)"

definition region :: "bool \<Rightarrow> page \<Rightarrow> string option" where
  "region isAlert s = (if isAlert then alertArea s else notificationArea s)"

definition announce :: "string \<Rightarrow> bool \<Rightarrow> page \<Rightarrow> page" where
  "announce message isAlert s =
     (case region isAlert s of
        None \<Rightarrow> s
      | Some _ \<Rightarrow>
          (let s1 = set_region isAlert [] s
           in s1\<lparr>raf_queue := raf_queue s1 @ [SetText isAlert message]\<rparr>))"

text \<open>The next animation frame runs the waiting callbacks in the order they were requested.\<close>

fun run_callback :: "callback \<Rightarrow> page \<Rightarrow> page" where
  "run_callback (SetText isAlert message) s = set_region isAlert message s"
| "run_callback AddOpenClass s = upd_panel (elems_panel s) (\<lambda>p. p\<lparr>is_open := True\<rparr>) s"

definition frame :: "page \<Rightarrow> page" where
  "frame s = fold run_callback (raf_queue s) (s\<lparr>raf_queue := []\<rparr>)"

subsection \<open>The delegated click listener of the panel\<close>

definition persist :: "page \<Rightarrow> page" where
  "persist s = s\<lparr>localStorage := savePrefs (prefs s) (localStorage s)\<rparr>"

definition updateFontUI :: "platform \<Rightarrow> page \<Rightarrow> page" where
  "updateFontUI P s =
     upd_panel (elems_panel s)
       (\<lambda>p. p\<lparr>inc_disabled := js_ge (ToNumber P (fontScale (prefs s))) 2,
               dec_disabled := js_le (ToNumber P (fontScale (prefs s))) (- 2),
               font_val := fontLabel P (fontScale (prefs s))\<rparr>) s"

text \<open>What the listener writes to the clicked toggle: class, pressed state, label.\<close>

definition patch_toggle :: "bool \<Rightarrow> toggle \<Rightarrow> toggle" where
  "patch_toggle v t =
     t\<lparr>is_active := v, aria_pressed := str_bool v,
       label_text := (if v then ''Activado'' else ''Desactivado'')\<rparr>"

datatype mode = Normal | High | Dark | Invert

fun mode_key :: "mode \<Rightarrow> string" where
  "mode_key Normal = ''normal''"
| "mode_key High = ''high''"
| "mode_key Dark = ''dark''"
| "mode_key Invert = ''invert''"

text \<open>
  What \<^verbatim>\<open>e.target.closest('[data-action], #a11y-close')\<close> finds for a click inside a
  panel: nothing, the close button, or one of the buttons with an action. A contrast
  button is given by the entry of \<^verbatim>\<open>contrasts\<close> it was built from.
\<close>

datatype target =
    Outside
  | CloseBtn
  | BtnReader
  | BtnFontInc
  | BtnFontDec
  | BtnContrast mode
  | BtnSpacing
  | BtnDyslexia
  | BtnLinks
  | BtnCursor
  | BtnReset

definition reset_message :: string where
  "reset_message = ''Configuraci'' @ [CHR 0xF3] @ ''n de accesibilidad restablecida.''"

text \<open>
  The listener, run for a click caught on the panel element at address \<open>a\<close>: the
  clicked button \<^verbatim>\<open>btn\<close> is a button of that panel, while \<^verbatim>\<open>elems.panel\<close> is read
  where the script reads it. \<^verbatim>\<open>!x\<close> is the boolean that negates the truth of \<open>x\<close>;
  \<^verbatim>\<open>x++\<close> and \<^verbatim>\<open>x--\<close> store the number of \<open>x\<close> plus or minus one.
\<close>

fun panel_click :: "platform \<Rightarrow> nat \<Rightarrow> target \<Rightarrow> page \<Rightarrow> page" where
  "panel_click P a Outside s = s"
| "panel_click P a CloseBtn s = closePanel s"
| "panel_click P a BtnReader s =
     (let s1 = s\<lparr>prefs := (prefs s)\<lparr>readerEnabled := JBool (\<not> truthy (readerEnabled (prefs s)))\<rparr>\<rparr>;
          s2 = upd_panel a
                 (\<lambda>p. p\<lparr>btn_reader :=
                           patch_toggle (truthy (readerEnabled (prefs s1))) (btn_reader p)\<rparr>) s1;
          s3 = enableReader (truthy (readerEnabled (prefs s2))) s2
      in persist s3)"
| "panel_click P a BtnFontInc s =
     (if js_ge (ToNumber P (fontScale (prefs s))) 2 then s
      else let s1 = s\<lparr>prefs := (prefs s)\<lparr>fontScale :=
                          of_num (js_add P (ToNumber P (fontScale (prefs s))) (Fin 1))\<rparr>\<rparr>;
               s2 = s1\<lparr>html := applyFontScale P (fontScale (prefs s1)) (html s1)\<rparr>;
               s3 = updateFontUI P s2
           in persist s3)"
| "panel_click P a BtnFontDec s =
     (if js_le (ToNumber P (fontScale (prefs s))) (- 2) then s
      else let s1 = s\<lparr>prefs := (prefs s)\<lparr>fontScale :=
                          of_num (js_add P (ToNumber P (fontScale (prefs s))) (Fin (- 1)))\<rparr>\<rparr>;
               s2 = s1\<lparr>html := applyFontScale P (fontScale (prefs s1)) (html s1)\<rparr>;
               s3 = updateFontUI P s2
           in persist s3)"
| "panel_click P a (BtnContrast m) s =
     (let s1 = s\<lparr>prefs := (prefs s)\<lparr>contrast := JStr (mode_key m)\<rparr>\<rparr>;
          s2 = s1\<lparr>html := applyContrast P (contrast (prefs s1)) (html s1)\<rparr>;
          s3 = upd_panel (elems_panel s2)
                 (\<lambda>p. p\<lparr>contrast_btns :=
                           map (\<lambda>b. b\<lparr>cb_active := (JStr (data_value b) = contrast (prefs s2)),
                                       cb_pressed := str_bool (JStr (data_value b) = contrast (prefs s2))\<rparr>)
                             (contrast_btns p)\<rparr>) s2
      in persist s3)"
| "panel_click P a BtnSpacing s =
     (let s1 = s\<lparr>prefs := (prefs s)\<lparr>spacing := JBool (\<not> truthy (spacing (prefs s)))\<rparr>\<rparr>;
          s2 = upd_panel a
                 (\<lambda>p. p\<lparr>btn_spacing := patch_toggle (truthy (spacing (prefs s1))) (btn_spacing p)\<rparr>) s1;
          s3 = s2\<lparr>html := applySpacing (spacing (prefs s2)) (html s2)\<rparr>
      in persist s3)"
| "panel_click P a BtnDyslexia s =
     (let s1 = s\<lparr>prefs := (prefs s)\<lparr>dyslexia := JBool (\<not> truthy (dyslexia (prefs s)))\<rparr>\<rparr>;
          s2 = upd_panel a
                 (\<lambda>p. p\<lparr>btn_dyslexia := patch_toggle (truthy (dyslexia (prefs s1))) (btn_dyslexia p)\<rparr>) s1;
          s3 = s2\<lparr>html := applyDyslexia (dyslexia (prefs s2)) (html s2)\<rparr>
      in persist s3)"
| "panel_click P a BtnLinks s =
     (let s1 = s\<lparr>prefs := (prefs s)\<lparr>highlightLinks := JBool (\<not> truthy (highlightLinks (prefs s)))\<rparr>\<rparr>;
          s2 = upd_panel a
                 (\<lambda>p. p\<lparr>btn_links :=
                           patch_toggle (truthy (highlightLinks (prefs s1))) (btn_links p)\<rparr>) s1;
          s3 = s2\<lparr>html := applyHighlightLinks (highlightLinks (prefs s2)) (html s2)\<rparr>
      in persist s3)"
| "panel_click P a BtnCursor s =
     (let s1 = s\<lparr>prefs := (prefs s)\<lparr>bigCursor := JBool (\<not> truthy (bigCursor (prefs s)))\<rparr>\<rparr>;
          s2 = upd_panel a
                 (\<lambda>p. p\<lparr>btn_cursor := patch_toggle (truthy (bigCursor (prefs s1))) (btn_cursor p)\<rparr>) s1;
          s3 = s2\<lparr>html := applyBigCursor (bigCursor (prefs s2)) (html s2)\<rparr>
      in persist s3)"
| "panel_click P a BtnReset s =
     (let s1 = s\<lparr>prefs := defaults\<rparr>;
          s2 = enableReader False s1;
          s3 = s2\<lparr>html := applyAll P (prefs s2) (html s2)\<rparr>;
          s4 = persist s3;
          s5 = s4\<lparr>panels := panels s4 @ [snd (buildPanel P (prefs s4))],
                  elems_panel := length (panels s4),
                  elems_fab := fst (buildPanel P (prefs s4))\<rparr>;
          s6 = s5\<lparr>panelOpen := False\<rparr>
      in announce reset_message False s6)"

subsection \<open>Page load and events\<close>

text \<open>What the page load finds: the storage, whether there is a speech service, the
  two live regions and the classes of the root element.\<close>

record env =
  env_storage :: storage
  env_speech :: bool
  env_notification :: "string option"
  env_alert :: "string option"
  env_classes :: "string list"

text \<open>
  The script from top to bottom. The fields that the script sets further down hold an
  empty value until then. The speech service, when there is one, has nothing queued at
  page load.
\<close>

definition init :: "platform \<Rightarrow> env \<Rightarrow> page" where
  "init P e =
     (let p = Object_assign defaults (loadPrefs (env_storage e));
          s0 = \<lparr>prefs = p, localStorage = env_storage e,
                html = applyAll P p \<lparr>fontSize = Fin 0, data_contrast = [], classList = env_classes e\<rparr>,
                readerActive = False,
                speechSynthesis = (if env_speech e then Some [] else None),
                doc_listeners = [], panels = [], elems_panel = 0,
                elems_fab = fst (buildPanel P p), click_delegation = [],
                panelOpen = False, focused = FocusElsewhere,
                notificationArea = env_notification e, alertArea = env_alert e,
                raf_queue = []\<rparr>;
          s1 = (if truthy (readerEnabled (prefs s0)) then enableReader True s0 else s0);
          s2 = s1\<lparr>panels := [snd (buildPanel P (prefs s1))], elems_panel := 0,
                  elems_fab := fst (buildPanel P (prefs s1))\<rparr>;
          s3 = s2\<lparr>panelOpen := False\<rparr>;
          s4 = s3\<lparr>doc_listeners := addEventListener (''keydown'', EscapeKey) (doc_listeners s3)\<rparr>
      in s4\<lparr>click_delegation := [elems_panel s4]\<rparr>)"

text \<open>
  The events of the page: a click inside the panel that is in the document, a click on
  the floating button, a key, a focus or pointer event on an element of a document, the
  next animation frame, the end of the closing transition, the end of the utterance
  being spoken.
\<close>

datatype event =
    PanelClick target
  | FabClick
  | KeyDown string
  | FocusIn dom element
  | MouseOver dom "element option"
  | Frame
  | TransitionEnd
  | SpeechEnd

fun step :: "platform \<Rightarrow> event \<Rightarrow> page \<Rightarrow> page" where
  "step P (PanelClick t) s =
     (if elems_panel s \<in> set (click_delegation s) then panel_click P (elems_panel s) t s else s)"
| "step P FabClick s = (if panelOpen s then closePanel s else openPanel s)"
| "step P (KeyDown k) s =
     (if (''keydown'', EscapeKey) \<in> set (doc_listeners s) \<and> k = ''Escape'' \<and> panelOpen s
      then closePanel s else s)"
| "step P (FocusIn d el) s =
     (if (''focusin'', ReaderFocus) \<in> set (doc_listeners s) then readerFocus d el s else s)"
| "step P (MouseOver d closest) s =
     (if (''mouseover'', ReaderHover) \<in> set (doc_listeners s) then readerHover d closest s else s)"
| "step P Frame s = frame s"
| "step P TransitionEnd s =
     upd_panel (elems_panel s)
       (\<lambda>p. if transitionend p > 0 then p\<lparr>hidden := True, transitionend := 0\<rparr> else p) s"
| "step P SpeechEnd s = s\<lparr>speechSynthesis := map_option tl (speechSynthesis s)\<rparr>"

fun run :: "platform \<Rightarrow> event list \<Rightarrow> page \<Rightarrow> page" where
  "run P [] s = s"
| "run P (e # es) s = run P es (step P e s)"

subsection \<open>Properties of states\<close>

text \<open>The record is within the schema: the scale an integer from -2 to 2, the contrast
  one of the four keys.\<close>

definition valid_prefs :: "prefs \<Rightarrow> bool" where
  "valid_prefs p =
     (fontScale p \<in> set (map (\<lambda>i. Val (JNum (of_int i))) [- 2, - 1, 0, 1, 2]) \<and>
      contrast p \<in> set (map JStr contrasts))"

text \<open>A toggle shows a value: the class, the pressed state and the label all say it.\<close>

definition shows_toggle :: "toggle \<Rightarrow> bool \<Rightarrow> bool" where
  "shows_toggle t v =
     (is_active t = v \<and> aria_pressed t = str_bool v \<and>
      label_text t = (if v then ''Activado'' else ''Desactivado''))"

text \<open>The five toggles of the panel in the document show the truth of the five fields.\<close>

definition rendered :: "page \<Rightarrow> bool" where
  "rendered s =
     (elems_panel s < length (panels s) \<and>
      shows_toggle (btn_reader (panels s ! elems_panel s)) (truthy (readerEnabled (prefs s))) \<and>
      shows_toggle (btn_spacing (panels s ! elems_panel s)) (truthy (spacing (prefs s))) \<and>
      shows_toggle (btn_dyslexia (panels s ! elems_panel s)) (truthy (dyslexia (prefs s))) \<and>
      shows_toggle (btn_links (panels s ! elems_panel s)) (truthy (highlightLinks (prefs s))) \<and>
      shows_toggle (btn_cursor (panels s ! elems_panel s)) (truthy (bigCursor (prefs s))))"


text \<open>The root font size and the stepper of the panel in the document show the scale of the record.\<close>

definition font_shown :: "platform \<Rightarrow> page \<Rightarrow> bool" where
  "font_shown P s =
     (fontSize (html s) = ToNumber P (fontScale (prefs s)) \<and>
      inc_disabled (panels s ! elems_panel s) = js_ge (ToNumber P (fontScale (prefs s))) 2 \<and>
      dec_disabled (panels s ! elems_panel s) = js_le (ToNumber P (fontScale (prefs s))) (- 2) \<and>
      font_val (panels s ! elems_panel s) = fontLabel P (fontScale (prefs s)))"

text \<open>The record with an integer as its scale.\<close>

definition scale :: "int \<Rightarrow> jsval" where
  "scale x = Val (JNum (of_int x))"

text \<open>The number of utterances that the speech service holds.\<close>

definition in_flight :: "page \<Rightarrow> nat" where
  "in_flight s = (case speechSynthesis s of None \<Rightarrow> 0 | Some q \<Rightarrow> length q)"

text \<open>
  A call of \<^verbatim>\<open>announce\<close> makes two mutations that can be told apart: the text of
  the region right after the call differs from the text before, and the text after the
  next animation frame differs again.
\<close>

definition clear_then_set :: "string \<Rightarrow> bool \<Rightarrow> page \<Rightarrow> bool" where
  "clear_then_set message isAlert s =
     (region isAlert (announce message isAlert s) \<noteq> region isAlert s \<and>
      region isAlert (frame (announce message isAlert s)) \<noteq> region isAlert (announce message isAlert s))"

subsection \<open>Sample inputs\<close>

text \<open>A platform for the samples; none of them reaches a conversion that it stands for.\<close>

definition sample_platform :: platform where
  "sample_platform = \<lparr>number_of = (\<lambda>j. Spec NaN), string_of = (\<lambda>j. ''?''),
                       rounded_sum = (\<lambda>a b. Spec NaN), rounded_product = (\<lambda>a b. Spec NaN),
                       parsed_attribute = (\<lambda>s. ''?'')\<rparr>"

definition sample_env :: env where
  "sample_env = \<lparr>env_storage = \<lparr>item = NoItem, get_throws = False, set_throws = False\<rparr>,
                 env_speech = True, env_notification = Some [], env_alert = Some [],
                 env_classes = []\<rparr>"

definition stored_env :: "partial_prefs \<Rightarrow> env" where
  "stored_env ob = sample_env\<lparr>env_storage :=
     \<lparr>item = Props ob, get_throws = False, set_throws = False\<rparr>\<rparr>"

text \<open>A stored object with a scale and a contrast outside the schema.\<close>

definition stored_out_of_range :: partial_prefs where
  "stored_out_of_range =
     empty_object\<lparr>p_fontScale := Some (JNum 7), p_contrast := Some (JStr ''sepia'')\<rparr>"

text \<open>A stored object with the scale 1.5.\<close>

definition stored_fraction :: partial_prefs where
  "stored_fraction = empty_object\<lparr>p_fontScale := Some (JNum (3 / 2))\<rparr>"

text \<open>A stored object with the string \<^verbatim>\<open>false\<close> for \<open>spacing\<close>.\<close>

definition stored_string :: partial_prefs where
  "stored_string = empty_object\<lparr>p_spacing := Some (JStr ''false'')\<rparr>"



text \<open>A storage that is full: it can be read, and it refuses every write.\<close>

definition full_storage :: storage where
  "full_storage = \<lparr>item = NoItem, get_throws = False, set_throws = True\<rparr>"

definition working_storage :: storage where
  "working_storage = \<lparr>item = BadText, get_throws = False, set_throws = False\<rparr>"

definition spaced_prefs :: prefs where
  "spaced_prefs = defaults\<lparr>spacing := JBool True\<rparr>"

text \<open>
  A button whose \<^verbatim>\<open>aria-labelledby\<close> names an element with blank text, in a
  document that has that element; a heading with text; an input whose id has a double
  quote in it, in a document whose \<^verbatim>\<open>querySelector\<close> throws for the selector made
  from that id.
\<close>

definition blank_span :: element where
  "blank_span = \<lparr>tagName = ''SPAN'', attrs = [(''id'', ''caption'')], el_id = ''caption'',
                 placeholder = [], el_type = [], textContent = ''  ''\<rparr>"

definition captioned_button :: element where
  "captioned_button = \<lparr>tagName = ''BUTTON'', attrs = [(''aria-labelledby'', ''caption'')],
                       el_id = [], placeholder = [], el_type = ''submit'',
                       textContent = ''Comprar''\<rparr>"

definition sample_heading :: element where
  "sample_heading = \<lparr>tagName = ''H2'', attrs = [], el_id = [], placeholder = [],
                     el_type = [], textContent = '' Env'' @ [CHR 0xED] @ ''os ''\<rparr>"

definition quoted_id :: string where
  "quoted_id = ''a'' @ [CHR 0x22] @ ''b''"

definition quoted_input :: element where
  "quoted_input = \<lparr>tagName = ''INPUT'', attrs = [(''id'', quoted_id)], el_id = quoted_id,
                   placeholder = ''Correo'', el_type = ''text'', textContent = []\<rparr>"

definition sample_dom :: dom where
  "sample_dom = \<lparr>by_id = [(''caption'', blank_span)],
                 querySelector = (\<lambda>sel. if sel = label_selector quoted_id then Inl SyntaxError
                                        else Inr None)\<rparr>"

definition cart_message :: string where
  "cart_message = ''Producto agregado al carrito.''"

text \<open>The page after the reader was switched on and its first utterance was spoken to the end.\<close>

definition reader_on :: page where
  "reader_on = run sample_platform [PanelClick BtnReader, SpeechEnd] (init sample_platform sample_env)"

text \<open>The page after a first announcement of the cart message was rendered.\<close>

definition announced_once :: page where
  "announced_once = frame (announce cart_message False (init sample_platform sample_env))"

section \<open>Helper lemmas\<close>

subsection \<open>What each function leaves alone\<close>

lemma stopSpeech_keeps [simp]:
  "prefs (stopSpeech s) = prefs s" "localStorage (stopSpeech s) = localStorage s"
  "html (stopSpeech s) = html s" "readerActive (stopSpeech s) = readerActive s"
  "doc_listeners (stopSpeech s) = doc_listeners s" "panels (stopSpeech s) = panels s"
  "elems_panel (stopSpeech s) = elems_panel s" "elems_fab (stopSpeech s) = elems_fab s"
  "click_delegation (stopSpeech s) = click_delegation s" "panelOpen (stopSpeech s) = panelOpen s"
  "focused (stopSpeech s) = focused s" "notificationArea (stopSpeech s) = notificationArea s"
  "alertArea (stopSpeech s) = alertArea s" "raf_queue (stopSpeech s) = raf_queue s"
  by (simp_all add: stopSpeech_def split: option.splits)

lemma stopSpeech_queue: "speechSynthesis (stopSpeech s) = map_option (\<lambda>q. []) (speechSynthesis s)"
  by (simp add: stopSpeech_def split: option.splits)

lemma speak_keeps [simp]:
  "prefs (speak t f s) = prefs s" "localStorage (speak t f s) = localStorage s"
  "html (speak t f s) = html s" "readerActive (speak t f s) = readerActive s"
  "doc_listeners (speak t f s) = doc_listeners s" "panels (speak t f s) = panels s"
  "elems_panel (speak t f s) = elems_panel s" "elems_fab (speak t f s) = elems_fab s"
  "click_delegation (speak t f s) = click_delegation s" "panelOpen (speak t f s) = panelOpen s"
  "focused (speak t f s) = focused s" "notificationArea (speak t f s) = notificationArea s"
  "alertArea (speak t f s) = alertArea s" "raf_queue (speak t f s) = raf_queue s"
  by (simp_all add: speak_def Let_def)

lemma speak_queue:
  "speechSynthesis (speak t f s) =
     (if (readerActive s \<or> f) \<and> speechSynthesis s \<noteq> None
      then Some [\<lparr>u_text = t, u_lang = ''es-ES'', u_rate = 95\<rparr>] else speechSynthesis s)"
  by (auto simp add: speak_def Let_def stopSpeech_queue)

lemma enableReader_keeps [simp]:
  "prefs (enableReader b s) = prefs s" "localStorage (enableReader b s) = localStorage s"
  "html (enableReader b s) = html s" "panels (enableReader b s) = panels s"
  "elems_panel (enableReader b s) = elems_panel s" "elems_fab (enableReader b s) = elems_fab s"
  "click_delegation (enableReader b s) = click_delegation s" "panelOpen (enableReader b s) = panelOpen s"
  "focused (enableReader b s) = focused s" "notificationArea (enableReader b s) = notificationArea s"
  "alertArea (enableReader b s) = alertArea s" "raf_queue (enableReader b s) = raf_queue s"
  "readerActive (enableReader b s) = b"
  by (simp_all add: enableReader_def Let_def)

lemma enableReader_queue:
  "speechSynthesis (enableReader b s) =
     (if b then map_option (\<lambda>q. [\<lparr>u_text = onboarding, u_lang = ''es-ES'', u_rate = 95\<rparr>]) (speechSynthesis s)
      else map_option (\<lambda>q. []) (speechSynthesis s))"
  by (cases "speechSynthesis s") (simp_all add: enableReader_def Let_def speak_queue stopSpeech_queue)

lemma enableReader_listeners:
  "doc_listeners (enableReader b s) =
     (if b then addEventListener (''mouseover'', ReaderHover)
                 (addEventListener (''focusin'', ReaderFocus) (doc_listeners s))
      else removeEventListener (''mouseover'', ReaderHover)
             (removeEventListener (''focusin'', ReaderFocus) (doc_listeners s)))"
  by (simp add: enableReader_def Let_def)

lemma readerFocus_keeps [simp]:
  "prefs (readerFocus d el s) = prefs s" "localStorage (readerFocus d el s) = localStorage s"
  "html (readerFocus d el s) = html s" "readerActive (readerFocus d el s) = readerActive s"
  "doc_listeners (readerFocus d el s) = doc_listeners s" "panels (readerFocus d el s) = panels s"
  "elems_panel (readerFocus d el s) = elems_panel s" "elems_fab (readerFocus d el s) = elems_fab s"
  "click_delegation (readerFocus d el s) = click_delegation s" "panelOpen (readerFocus d el s) = panelOpen s"
  "focused (readerFocus d el s) = focused s" "notificationArea (readerFocus d el s) = notificationArea s"
  "alertArea (readerFocus d el s) = alertArea s" "raf_queue (readerFocus d el s) = raf_queue s"
  by (simp_all add: readerFocus_def Let_def split: sum.splits)

lemma readerHover_keeps [simp]:
  "prefs (readerHover d c s) = prefs s" "localStorage (readerHover d c s) = localStorage s"
  "html (readerHover d c s) = html s" "readerActive (readerHover d c s) = readerActive s"
  "doc_listeners (readerHover d c s) = doc_listeners s" "panels (readerHover d c s) = panels s"
  "elems_panel (readerHover d c s) = elems_panel s" "elems_fab (readerHover d c s) = elems_fab s"
  "click_delegation (readerHover d c s) = click_delegation s" "panelOpen (readerHover d c s) = panelOpen s"
  "focused (readerHover d c s) = focused s" "notificationArea (readerHover d c s) = notificationArea s"
  "alertArea (readerHover d c s) = alertArea s" "raf_queue (readerHover d c s) = raf_queue s"
  by (simp_all add: readerHover_def split: option.splits sum.splits)

lemma set_region_keeps [simp]:
  "prefs (set_region u t s) = prefs s" "localStorage (set_region u t s) = localStorage s"
  "html (set_region u t s) = html s" "readerActive (set_region u t s) = readerActive s"
  "speechSynthesis (set_region u t s) = speechSynthesis s"
  "doc_listeners (set_region u t s) = doc_listeners s" "panels (set_region u t s) = panels s"
  "elems_panel (set_region u t s) = elems_panel s" "elems_fab (set_region u t s) = elems_fab s"
  "click_delegation (set_region u t s) = click_delegation s" "panelOpen (set_region u t s) = panelOpen s"
  "focused (set_region u t s) = focused s" "raf_queue (set_region u t s) = raf_queue s"
  by (simp_all add: set_region_def)

lemma announce_keeps [simp]:
  "prefs (announce m u s) = prefs s" "localStorage (announce m u s) = localStorage s"
  "html (announce m u s) = html s" "readerActive (announce m u s) = readerActive s"
  "speechSynthesis (announce m u s) = speechSynthesis s"
  "doc_listeners (announce m u s) = doc_listeners s" "panels (announce m u s) = panels s"
  "elems_panel (announce m u s) = elems_panel s" "elems_fab (announce m u s) = elems_fab s"
  "click_delegation (announce m u s) = click_delegation s" "panelOpen (announce m u s) = panelOpen s"
  "focused (announce m u s) = focused s"
  by (simp_all add: announce_def Let_def split: option.splits)

lemma upd_panel_keeps [simp]:
  "prefs (upd_panel a g s) = prefs s" "localStorage (upd_panel a g s) = localStorage s"
  "html (upd_panel a g s) = html s" "readerActive (upd_panel a g s) = readerActive s"
  "speechSynthesis (upd_panel a g s) = speechSynthesis s"
  "doc_listeners (upd_panel a g s) = doc_listeners s"
  "elems_panel (upd_panel a g s) = elems_panel s" "elems_fab (upd_panel a g s) = elems_fab s"
  "click_delegation (upd_panel a g s) = click_delegation s" "panelOpen (upd_panel a g s) = panelOpen s"
  "focused (upd_panel a g s) = focused s" "notificationArea (upd_panel a g s) = notificationArea s"
  "alertArea (upd_panel a g s) = alertArea s" "raf_queue (upd_panel a g s) = raf_queue s"
  "length (panels (upd_panel a g s)) = length (panels s)"
  by (simp_all add: upd_panel_def)

lemma upd_panel_at: "a < length (panels s) \<Longrightarrow> panels (upd_panel a g s) ! a = g (panels s ! a)"
  by (simp add: upd_panel_def)

lemma persist_keeps [simp]:
  "prefs (persist s) = prefs s"
  "html (persist s) = html s" "readerActive (persist s) = readerActive s"
  "speechSynthesis (persist s) = speechSynthesis s"
  "doc_listeners (persist s) = doc_listeners s" "panels (persist s) = panels s"
  "elems_panel (persist s) = elems_panel s" "elems_fab (persist s) = elems_fab s"
  "click_delegation (persist s) = click_delegation s" "panelOpen (persist s) = panelOpen s"
  "focused (persist s) = focused s" "notificationArea (persist s) = notificationArea s"
  "alertArea (persist s) = alertArea s" "raf_queue (persist s) = raf_queue s"
  by (simp_all add: persist_def)

lemma closePanel_keeps [simp]:
  "prefs (closePanel s) = prefs s" "localStorage (closePanel s) = localStorage s"
  "html (closePanel s) = html s" "readerActive (closePanel s) = readerActive s"
  "speechSynthesis (closePanel s) = speechSynthesis s"
  "doc_listeners (closePanel s) = doc_listeners s"
  "elems_panel (closePanel s) = elems_panel s"
  "click_delegation (closePanel s) = click_delegation s"
  "notificationArea (closePanel s) = notificationArea s"
  "alertArea (closePanel s) = alertArea s" "raf_queue (closePanel s) = raf_queue s"
  "length (panels (closePanel s)) = length (panels s)"
  by (simp_all add: closePanel_def Let_def)

lemma openPanel_keeps [simp]:
  "prefs (openPanel s) = prefs s" "localStorage (openPanel s) = localStorage s"
  "html (openPanel s) = html s" "readerActive (openPanel s) = readerActive s"
  "speechSynthesis (openPanel s) = speechSynthesis s"
  "doc_listeners (openPanel s) = doc_listeners s"
  "elems_panel (openPanel s) = elems_panel s"
  "click_delegation (openPanel s) = click_delegation s"
  "notificationArea (openPanel s) = notificationArea s"
  "alertArea (openPanel s) = alertArea s"
  "length (panels (openPanel s)) = length (panels s)"
  by (simp_all add: openPanel_def Let_def)

lemma run_callback_keeps [simp]:
  "prefs (run_callback c s) = prefs s" "localStorage (run_callback c s) = localStorage s"
  "html (run_callback c s) = html s" "readerActive (run_callback c s) = readerActive s"
  "speechSynthesis (run_callback c s) = speechSynthesis s"
  "doc_listeners (run_callback c s) = doc_listeners s"
  "elems_panel (run_callback c s) = elems_panel s"
  "click_delegation (run_callback c s) = click_delegation s"
  "length (panels (run_callback c s)) = length (panels s)"
  by (cases c; simp)+

lemma fold_run_callback_keeps [simp]:
  "prefs (fold run_callback cs s) = prefs s"
  "speechSynthesis (fold run_callback cs s) = speechSynthesis s"
  "doc_listeners (fold run_callback cs s) = doc_listeners s"
  "elems_panel (fold run_callback cs s) = elems_panel s"
  "click_delegation (fold run_callback cs s) = click_delegation s"
  "length (panels (fold run_callback cs s)) = length (panels s)"
  by (induction cs arbitrary: s; simp)+

lemma frame_keeps [simp]:
  "prefs (frame s) = prefs s"
  "speechSynthesis (frame s) = speechSynthesis s"
  "doc_listeners (frame s) = doc_listeners s"
  "elems_panel (frame s) = elems_panel s"
  "click_delegation (frame s) = click_delegation s"
  "length (panels (frame s)) = length (panels s)"
  by (simp_all add: frame_def)

subsection \<open>Utterances in flight\<close>

lemma in_flight_speak: "in_flight s \<le> Suc 0 \<Longrightarrow> in_flight (speak t f s) \<le> Suc 0"
  by (simp add: in_flight_def speak_queue)

lemma in_flight_enableReader: "in_flight (enableReader b s) \<le> Suc 0"
  by (cases "speechSynthesis s") (simp_all add: in_flight_def enableReader_queue)

lemma in_flight_readerFocus: "in_flight s \<le> Suc 0 \<Longrightarrow> in_flight (readerFocus d el s) \<le> Suc 0"
  by (simp add: readerFocus_def Let_def in_flight_speak split: sum.splits)

lemma in_flight_readerHover: "in_flight s \<le> Suc 0 \<Longrightarrow> in_flight (readerHover d c s) \<le> Suc 0"
  by (simp add: readerHover_def in_flight_speak split: option.splits sum.splits)

lemma in_flight_cong: "speechSynthesis s' = speechSynthesis s \<Longrightarrow> in_flight s' = in_flight s"
  by (simp add: in_flight_def)

lemma in_flight_panel_click: "in_flight s \<le> Suc 0 \<Longrightarrow> in_flight (panel_click P a t s) \<le> Suc 0"
proof (cases t)
  case BtnReader
  then show ?thesis
    by (simp add: Let_def in_flight_def enableReader_queue split: option.splits)
next
  case BtnReset
  then show ?thesis
    by (simp add: Let_def in_flight_def enableReader_queue split: option.splits)
qed (simp_all add: Let_def in_flight_def updateFontUI_def)

lemma in_flight_step:
  assumes "in_flight s \<le> Suc 0"
  shows "in_flight (step P e s) \<le> Suc 0"
proof (cases e)
  case (PanelClick t)
  then show ?thesis using assms by (simp add: in_flight_panel_click)
next
  case (FocusIn d el)
  then show ?thesis using assms by (simp add: in_flight_readerFocus)
next
  case (MouseOver d c)
  then show ?thesis using assms by (simp add: in_flight_readerHover)
next
  case SpeechEnd
  then show ?thesis using assms by (cases "speechSynthesis s") (auto simp add: in_flight_def)
qed (use assms in \<open>simp_all add: in_flight_def\<close>)

lemma in_flight_run: "in_flight s \<le> Suc 0 \<Longrightarrow> in_flight (run P es s) \<le> Suc 0"
  by (induction es arbitrary: s) (simp_all add: in_flight_step)

lemma in_flight_init: "in_flight (init P e) \<le> Suc 0"
  by (simp add: init_def Let_def in_flight_def enableReader_queue)

subsection \<open>The toggles show the record\<close>

lemma shows_patch [simp]: "shows_toggle (patch_toggle v t) v"
  by (simp add: shows_toggle_def patch_toggle_def)

lemma truthy_JBool [simp]: "truthy (JBool b) = b"
  by (simp add: truthy_def)

lemma plain_str_bool [simp]: "plain (str_bool b)"
  by (simp add: plain_def str_bool_def)

lemma attribute_value_plain: "plain s \<Longrightarrow> attribute_value P s = s"
  by (simp add: attribute_value_def)

lemma shows_build [simp]: "shows_toggle (buildToggle P (JBool b)) b"
  by (simp add: shows_toggle_def buildToggle_def ToString_def attribute_value_plain)


lemma init_panels:
  "panels (init P e) = [snd (buildPanel P (prefs (init P e)))]" "elems_panel (init P e) = 0"
  "click_delegation (init P e) = [0]"
  by (simp_all add: init_def Let_def)

lemma prefs_init: "prefs (init P e) = Object_assign defaults (loadPrefs (env_storage e))"
  by (simp add: init_def Let_def)

lemma rendered_panel_click: "rendered s \<Longrightarrow> rendered (panel_click P (elems_panel s) t s)"
  by (cases t)
     (simp_all add: rendered_def Let_def upd_panel_def updateFontUI_def closePanel_def buildPanel_def defaults_def)

lemma rendered_fold: "rendered s \<Longrightarrow> rendered (fold run_callback cs s)"
proof (induction cs arbitrary: s)
  case Nil
  then show ?case by simp
next
  case (Cons c cs)
  have "rendered (run_callback c s)"
    using Cons.prems by (cases c) (simp_all add: rendered_def upd_panel_def set_region_def)
  then show ?case using Cons.IH by simp
qed

lemma rendered_step: "rendered s \<Longrightarrow> rendered (step P e s)"
proof (cases e)
  case (PanelClick t)
  assume "rendered s"
  then show ?thesis using PanelClick by (simp add: rendered_panel_click)
next
  case Frame
  assume r: "rendered s"
  have "rendered (s\<lparr>raf_queue := []\<rparr>)" using r by (simp add: rendered_def)
  then show ?thesis using Frame by (simp add: frame_def rendered_fold)
qed (simp_all add: rendered_def upd_panel_def closePanel_def openPanel_def Let_def)

lemma rendered_run: "rendered s \<Longrightarrow> rendered (run P es s)"
  by (induction es arbitrary: s) (simp_all add: rendered_step)

text \<open>The panel built at page load shows a record whose five boolean fields are booleans.\<close>

lemma rendered_init:
  assumes "readerEnabled (prefs (init P e)) = JBool b1"
    and "spacing (prefs (init P e)) = JBool b2"
    and "dyslexia (prefs (init P e)) = JBool b3"
    and "highlightLinks (prefs (init P e)) = JBool b4"
    and "bigCursor (prefs (init P e)) = JBool b5"
  shows "rendered (init P e)"
  by (simp add: rendered_def init_panels buildPanel_def assms)

subsection \<open>After a reset\<close>

text \<open>
  The click listener is attached once, to the panel built at page load. A reset puts a
  fresh panel into the document, which carries no listener: a click inside it reaches
  no code of the script.
\<close>

lemma panel_click_delegation: "click_delegation (panel_click P a t s) = click_delegation s"
  by (cases t) (simp_all add: Let_def updateFontUI_def)

lemma panel_click_panels: "length (panels s) \<le> length (panels (panel_click P a t s))"
  by (cases t) (simp_all add: Let_def updateFontUI_def)

lemma step_delegation: "click_delegation (step P e s) = click_delegation s"
  by (cases e) (simp_all add: panel_click_delegation)

lemma step_panels: "length (panels s) \<le> length (panels (step P e s))"
  by (cases e) (simp_all add: panel_click_panels)

lemma run_delegation: "click_delegation (run P es s) = click_delegation s"
  by (induction es arbitrary: s) (simp_all add: step_delegation)

lemma run_panels: "length (panels s) \<le> length (panels (run P es s))"
proof (induction es arbitrary: s)
  case Nil
  then show ?case by simp
next
  case (Cons e es)
  have "length (panels s) \<le> length (panels (step P e s))" by (rule step_panels)
  also have "\<dots> \<le> length (panels (run P es (step P e s)))" by (rule Cons.IH)
  finally show ?case by simp
qed

lemma reset_moves_panel: "elems_panel (panel_click P a BtnReset s) = length (panels s)"
  by (simp add: Let_def)

lemma no_listener_after_reset:
  assumes "elems_panel (run P es (init P e)) \<in> set (click_delegation (run P es (init P e)))"
  shows "step P (PanelClick t) (step P (PanelClick BtnReset) (run P es (init P e)))
           = step P (PanelClick BtnReset) (run P es (init P e))"
proof -
  let ?s = "run P es (init P e)"
  have d: "click_delegation ?s = [0]" by (simp add: run_delegation init_panels)
  have "length (panels (init P e)) \<le> length (panels ?s)" by (rule run_panels)
  then have l: "0 < length (panels ?s)" by (cases "panels ?s") (simp_all add: init_panels)
  have "elems_panel (step P (PanelClick BtnReset) ?s) = length (panels ?s)"
    using assms by (simp add: reset_moves_panel del: panel_click.simps)
  moreover have "click_delegation (step P (PanelClick BtnReset) ?s) = [0]"
    using d by (simp add: step_delegation del: step.simps)
  ultimately show ?thesis using l by simp
qed

subsection \<open>Integers as numbers of the script\<close>

lemma is_double_int: "\<bar>i\<bar> \<le> 1000 \<Longrightarrow> is_double (of_int i)"
proof -
  assume a: "\<bar>i\<bar> \<le> 1000"
  have "(of_int i :: rat) * 2 ^ 20 = of_int (i * 2 ^ 20)" by simp
  then have z: "of_int \<lfloor>(of_int i :: rat) * 2 ^ 20\<rfloor> = (of_int i :: rat) * 2 ^ 20"
    by (metis floor_of_int)
  have "\<bar>i * 2 ^ 20\<bar> \<le> 1000 * 2 ^ 20" using a by (simp add: abs_mult)
  then have "\<bar>i * 2 ^ 20\<bar> \<le> (2::int) ^ 53" by simp
  then have "\<bar>(of_int (i * 2 ^ 20) :: rat)\<bar> \<le> of_int (2 ^ 53)"
    by (metis of_int_abs of_int_le_iff)
  then have "\<bar>(of_int i :: rat) * 2 ^ 20\<bar> \<le> 2 ^ 53" by simp
  then show ?thesis using z by (simp add: is_double_def)
qed

lemma ToNumber_scale [simp]: "ToNumber P (scale x) = Fin (of_int x)"
  by (simp add: ToNumber_def scale_def)

lemma js_add_int:
  "\<bar>x + y\<bar> \<le> 1000 \<Longrightarrow> js_add P (Fin (of_int x)) (Fin (of_int y)) = Fin (of_int (x + y))"
  using is_double_int [of "x + y"] by (simp add: js_add_def)


lemma of_num_int [simp]: "of_num (Fin (of_int x)) = scale x"
  by (simp add: of_num_def scale_def)

lemma js_ge_int [simp]: "js_ge (Fin (of_int x)) 2 = (x \<ge> 2)"
proof -
  have "((of_int x :: rat) \<ge> of_int 2) = (x \<ge> 2)" by (rule of_int_le_iff)
  then show ?thesis by (simp add: js_ge_def)
qed

lemma js_le_int [simp]: "js_le (Fin (of_int x)) (- 2) = (x \<le> - 2)"
proof -
  have "((of_int x :: rat) \<le> of_int (- 2)) = (x \<le> - 2)" by (rule of_int_le_iff)
  then show ?thesis by (simp add: js_le_def)
qed

lemma js_gt_int [simp]: "js_gt (Fin (of_int x)) 0 = (x > 0)"
  by (simp add: js_gt_def)


lemma scale_inject [simp]: "(scale x = scale y) = (x = y)"
  by (simp add: scale_def)



subsection \<open>The label of the stepper and its steps\<close>



lemma scale_cases:
  "- 2 \<le> (x::int) \<Longrightarrow> x \<le> 2 \<Longrightarrow> x = - 2 \<or> x = - 1 \<or> x = 0 \<or> x = 1 \<or> x = 2"
  by arith


lemma font_inc_steps:
  assumes "fontScale (prefs s) = scale x" "- 2 \<le> x" "x < 2" "elems_panel s < length (panels s)"
  shows "prefs (panel_click P a BtnFontInc s) = (prefs s)\<lparr>fontScale := scale (x + 1)\<rparr>"
    and "font_shown P (panel_click P a BtnFontInc s)"
    and "elems_panel (panel_click P a BtnFontInc s) = elems_panel s"
    and "length (panels (panel_click P a BtnFontInc s)) = length (panels s)"
proof -
  have j: "js_add P (Fin (of_int x)) (Fin 1) = Fin (of_int (x + 1))"
    using js_add_int [of x 1 P] assms(2,3) by simp
  show "prefs (panel_click P a BtnFontInc s) = (prefs s)\<lparr>fontScale := scale (x + 1)\<rparr>"
    and "font_shown P (panel_click P a BtnFontInc s)"
    and "elems_panel (panel_click P a BtnFontInc s) = elems_panel s"
    and "length (panels (panel_click P a BtnFontInc s)) = length (panels s)"
    using assms j
    by (simp_all add: Let_def font_shown_def updateFontUI_def upd_panel_def applyFontScale_def
        del: of_int_add)
qed


lemma init_sample_prefs: "prefs (init P sample_env) = defaults"
  by (simp add: prefs_init sample_env_def loadPrefs_def Object_assign_def defaults_def
      empty_object_def assigned_def)

lemma defaults_scale: "fontScale defaults = scale 0"
  by (simp add: defaults_def scale_def)

subsection \<open>The listener keeps a record within the schema\<close>

lemma valid_prefs_iff:
  "valid_prefs p \<longleftrightarrow>
     (\<exists>x. fontScale p = scale x \<and> - 2 \<le> x \<and> x \<le> 2) \<and> contrast p \<in> JStr ` set contrasts"
proof -
  have "fontScale p \<in> set (map (\<lambda>i. Val (JNum (of_int i))) [- 2, - 1, 0, 1, 2])
          \<longleftrightarrow> (\<exists>x. fontScale p = scale x \<and> - 2 \<le> x \<and> x \<le> 2)"
  proof
    assume "fontScale p \<in> set (map (\<lambda>i. Val (JNum (of_int i))) [- 2, - 1, 0, 1, 2])"
    then obtain i where "i \<in> set [- 2, - 1, 0, 1, 2 :: int]" "fontScale p = scale i"
      unfolding scale_def by (metis (no_types, lifting) imageE list.set_map)
    then show "\<exists>x. fontScale p = scale x \<and> - 2 \<le> x \<and> x \<le> 2" by auto
  next
    assume "\<exists>x. fontScale p = scale x \<and> - 2 \<le> x \<and> x \<le> 2"
    then obtain x where x: "fontScale p = scale x" "- 2 \<le> x" "x \<le> 2" by blast
    then have "x \<in> set [- 2, - 1, 0, 1, 2]" using scale_cases [of x] by auto
    then show "fontScale p \<in> set (map (\<lambda>i. Val (JNum (of_int i))) [- 2, - 1, 0, 1, 2])"
      using x(1) unfolding scale_def by (metis (no_types, lifting) image_eqI list.set_map)
  qed
  then show ?thesis by (simp add: valid_prefs_def)
qed

lemma mode_key_in: "mode_key m \<in> set contrasts"
  by (cases m) (simp_all add: contrasts_def)

lemma valid_defaults: "valid_prefs defaults"
  unfolding valid_prefs_iff using defaults_scale by (auto simp add: defaults_def contrasts_def)

lemma valid_panel_click:
  assumes "valid_prefs (prefs s)"
  shows "valid_prefs (prefs (panel_click P a t s))"
proof -
  obtain x where x: "fontScale (prefs s) = scale x" "- 2 \<le> x" "x \<le> 2"
    and c: "contrast (prefs s) \<in> JStr ` set contrasts"
    using assms unfolding valid_prefs_iff by blast
  show ?thesis
  proof (cases t)
    case BtnReset
    then show ?thesis by (simp add: Let_def valid_defaults)
  next
    case (BtnContrast m)
    then show ?thesis using x mode_key_in [of m] unfolding valid_prefs_iff by (simp add: Let_def)
  next
    case BtnFontInc
    have up: "js_add P (Fin (of_int x)) (Fin 1) = Fin (of_int (x + 1))"
      using js_add_int [of x 1 P] x(2,3) by simp
    show ?thesis
    proof (cases "x \<ge> 2")
      case True
      then have "js_ge (ToNumber P (fontScale (prefs s))) 2"
        by (simp only: x(1) ToNumber_scale js_ge_int)
      then have "panel_click P a t s = s" using BtnFontInc by simp
      then show ?thesis using assms by simp
    next
      case False
      then have "fontScale (prefs (panel_click P a t s)) = scale (x + 1)"
        and "contrast (prefs (panel_click P a t s)) = contrast (prefs s)"
        using BtnFontInc x up by (simp_all add: Let_def updateFontUI_def del: of_int_add)
      then show ?thesis using False x c unfolding valid_prefs_iff by auto
    qed
  next
    case BtnFontDec
    have dn: "js_add P (Fin (of_int x)) (Fin (- 1)) = Fin (of_int (x - 1))"
      using js_add_int [of x "- 1" P] x(2,3) by simp
    show ?thesis
    proof (cases "x \<le> - 2")
      case True
      then have "js_le (ToNumber P (fontScale (prefs s))) (- 2)"
        by (simp only: x(1) ToNumber_scale js_le_int)
      then have "panel_click P a t s = s" using BtnFontDec by simp
      then show ?thesis using assms by simp
    next
      case False
      then have "fontScale (prefs (panel_click P a t s)) = scale (x - 1)"
        and "contrast (prefs (panel_click P a t s)) = contrast (prefs s)"
        using BtnFontDec x dn by (simp_all add: Let_def updateFontUI_def del: of_int_diff)
      then show ?thesis using False x c unfolding valid_prefs_iff by auto
    qed
  qed (use assms in \<open>simp_all add: Let_def valid_prefs_def\<close>)
qed

lemma valid_step: "valid_prefs (prefs s) \<Longrightarrow> valid_prefs (prefs (step P e s))"
  by (cases e) (simp_all add: valid_panel_click)

lemma valid_run: "valid_prefs (prefs s) \<Longrightarrow> valid_prefs (prefs (run P es s))"
  by (induction es arbitrary: s) (simp_all add: valid_step)

subsection \<open>Storage, labels, listeners and live regions\<close>

lemma assign_stringify:
  assumes "fontScale r = Val j" and "others r ''__proto__'' = None"
  shows "Object_assign defaults (stringify r) = r"
proof -
  have "assigned (others r) = others r"
    using assms(2) by (auto simp add: assigned_def fun_eq_iff)
  then show ?thesis
    using assms(1) by (simp add: Object_assign_def stringify_def defaults_def json_of_def assigned_def)
qed

lemma assign_empty: "Object_assign defaults empty_object = defaults"
  by (simp add: Object_assign_def empty_object_def defaults_def assigned_def)


lemma or_str_empty: "or_str a b = [] \<longleftrightarrow> a = [] \<and> b = []"
  by (simp add: or_str_def)

lemma or_attr_empty: "or_attr a b = [] \<longleftrightarrow> b = [] \<and> (a = None \<or> a = Some [])"
  by (cases a) (auto simp add: or_attr_def or_str_def)

lemma truthy_attr_Some: "truthy_attr a = Some l \<Longrightarrow> l \<noteq> []"
  by (cases a) (auto simp add: truthy_attr_def split: if_splits)

lemma toLowerCase_empty: "toLowerCase t = [] \<longleftrightarrow> t = []"
  by (simp add: toLowerCase_def)

lemma getLabel_cases:
  "getLabel d el =
     (case truthy_attr (getAttribute el ''aria-label'') of
        Some l \<Rightarrow> Inr l
      | None \<Rightarrow>
          (case labelledby_ref d el of
             Some ref \<Rightarrow> Inr (trim (textContent ref))
           | None \<Rightarrow>
               if tagName el = ''IMG'' then Inr (or_attr (getAttribute el ''alt'') ''imagen'')
               else if tagName el = ''INPUT'' then
                 (case query_label_for d (el_id el) of
                    Inl e \<Rightarrow> Inl e
                  | Inr (Some lbl) \<Rightarrow> Inr (trim (textContent lbl))
                  | Inr None \<Rightarrow> Inr (or_str (placeholder el) (or_str (el_type el) ''campo'')))
               else Inr (or_str (take 180 (trim (textContent el))) (toLowerCase (tagName el)))))"
  by (simp add: getLabel_def)

lemma getLabel_error_iff:
  "getLabel d el = Inl SyntaxError \<longleftrightarrow>
     truthy_attr (getAttribute el ''aria-label'') = None \<and> labelledby_ref d el = None \<and>
     tagName el = ''INPUT'' \<and> query_label_for d (el_id el) = Inl SyntaxError"
proof (cases "truthy_attr (getAttribute el ''aria-label'')")
  case (Some l)
  then show ?thesis by (simp add: getLabel_def)
next
  case None
  show ?thesis
  proof (cases "labelledby_ref d el")
    case (Some ref)
    then show ?thesis using None by (simp add: getLabel_def)
  next
    case nr: None
    show ?thesis
    proof (cases "query_label_for d (el_id el)")
      case (Inl e)
      then show ?thesis using None nr by (cases e) (simp add: getLabel_def)
    next
      case (Inr r)
      then show ?thesis using None nr by (cases r) (simp_all add: getLabel_def)
    qed
  qed
qed

lemma getLabel_empty_iff:
  assumes "tagName el \<noteq> []"
  shows "getLabel d el = Inr [] \<longleftrightarrow>
         truthy_attr (getAttribute el ''aria-label'') = None \<and>
         ((\<exists>ref. labelledby_ref d el = Some ref \<and> trim (textContent ref) = []) \<or>
          (labelledby_ref d el = None \<and> tagName el = ''INPUT'' \<and>
           (\<exists>lbl. query_label_for d (el_id el) = Inr (Some lbl) \<and> trim (textContent lbl) = [])))"
proof (cases "truthy_attr (getAttribute el ''aria-label'')")
  case (Some l)
  then show ?thesis using truthy_attr_Some [OF Some] by (simp add: getLabel_def)
next
  case None
  show ?thesis
  proof (cases "labelledby_ref d el")
    case (Some ref)
    then show ?thesis using None by (simp add: getLabel_def)
  next
    case nr: None
    show ?thesis
    proof (cases "query_label_for d (el_id el)")
      case (Inl e)
      then show ?thesis using None nr assms
        by (simp add: getLabel_def or_str_empty or_attr_empty toLowerCase_empty)
    next
      case (Inr r)
      then show ?thesis using None nr assms
        by (cases r) (simp_all add: getLabel_def or_str_empty or_attr_empty toLowerCase_empty)
    qed
  qed
qed

lemma getLabel_fallback:
  assumes "truthy_attr (getAttribute el ''aria-label'') = None" "labelledby_ref d el = None"
    "tagName el \<noteq> ''IMG''" "tagName el \<noteq> ''INPUT''"
  shows "getLabel d el = Inr (if trim (textContent el) \<noteq> [] then take 180 (trim (textContent el))
                              else toLowerCase (tagName el))"
  using assms by (auto simp add: getLabel_def or_str_def)

lemma readerFocus_speaks:
  assumes "getLabel d el = Inr l" "l \<noteq> []" "readerActive s" "speechSynthesis s \<noteq> None"
  shows "\<exists>prefix. speechSynthesis (readerFocus d el s)
           = Some [\<lparr>u_text = prefix @ l, u_lang = ''es-ES'', u_rate = 95\<rparr>]"
  using assms by (simp add: readerFocus_def Let_def speak_queue)

lemma readerFocus_silent:
  assumes "getLabel d el = Inr [] \<or> getLabel d el = Inl SyntaxError"
  shows "readerFocus d el s = s"
  using assms by (auto simp add: readerFocus_def Let_def)

lemma trim_heading: "trim (textContent sample_heading) = ''Env'' @ [CHR 0xED] @ ''os''"
  by (simp add: sample_heading_def trim_def is_space_def)

lemma reader_on_fields:
  "readerActive reader_on"
  "doc_listeners reader_on = [(''keydown'', EscapeKey), (''focusin'', ReaderFocus), (''mouseover'', ReaderHover)]"
  "speechSynthesis reader_on = Some []"
  by (simp_all add: reader_on_def init_panels init_sample_prefs defaults_def Let_def enableReader_queue
      enableReader_listeners addEventListener_def init_def sample_env_def loadPrefs_def Object_assign_def empty_object_def)

lemma add_present: "l \<in> set ls \<Longrightarrow> addEventListener l ls = ls"
  by (simp add: addEventListener_def)

lemma add_member: "l \<in> set (addEventListener l ls)"
  by (simp add: addEventListener_def)

lemma add_member_other: "k \<in> set ls \<Longrightarrow> k \<in> set (addEventListener l ls)"
  by (simp add: addEventListener_def)

lemma add_distinct: "distinct ls \<Longrightarrow> distinct (addEventListener l ls)"
  by (simp add: addEventListener_def)

lemma remove_absent: "l \<notin> set ls \<Longrightarrow> removeEventListener l ls = ls"
  by (simp add: removeEventListener_def remove1_idem)

lemma remove_gone: "distinct ls \<Longrightarrow> l \<notin> set (removeEventListener l ls)"
  by (simp add: removeEventListener_def)

lemma remove_distinct: "distinct ls \<Longrightarrow> distinct (removeEventListener l ls)"
  by (simp add: removeEventListener_def)

lemma remove_other: "k \<notin> set ls \<Longrightarrow> k \<notin> set (removeEventListener l ls)"
  by (auto simp add: removeEventListener_def dest: notin_set_remove1)

lemma count_one: "distinct ls \<Longrightarrow> l \<in> set ls \<Longrightarrow> count_list ls l = 1"
  by (induction ls) auto

lemma speak_twice: "speak t True (speak t True s) = speak t True s"
  by (cases "speechSynthesis s") (simp_all add: speak_def Let_def stopSpeech_def)

lemma stopSpeech_twice: "stopSpeech (stopSpeech s) = stopSpeech s"
  by (cases "speechSynthesis s") (simp_all add: stopSpeech_def)

lemma enableReader_True_eq:
  "enableReader True s =
     speak onboarding True
       (s\<lparr>readerActive := True,
          doc_listeners := addEventListener (''mouseover'', ReaderHover)
                             (addEventListener (''focusin'', ReaderFocus) (doc_listeners s))\<rparr>)"
  by (simp add: enableReader_def Let_def)

lemma enableReader_False_eq:
  "enableReader False s =
     (stopSpeech s)\<lparr>readerActive := False,
          doc_listeners := removeEventListener (''mouseover'', ReaderHover)
                             (removeEventListener (''focusin'', ReaderFocus) (doc_listeners s))\<rparr>"
  by (cases "speechSynthesis s") (simp_all add: enableReader_def Let_def stopSpeech_def)

lemma speak_update_commute:
  "speak t True (s\<lparr>readerActive := b, doc_listeners := ls\<rparr>) = (speak t True s)\<lparr>readerActive := b, doc_listeners := ls\<rparr>"
  by (cases "speechSynthesis s") (simp_all add: speak_def Let_def stopSpeech_def)

lemma stopSpeech_update_commute:
  "stopSpeech (s\<lparr>readerActive := b, doc_listeners := ls\<rparr>) = (stopSpeech s)\<lparr>readerActive := b, doc_listeners := ls\<rparr>"
  by (cases "speechSynthesis s") (simp_all add: stopSpeech_def)

lemma enableReader_True_twice: "enableReader True (enableReader True s) = enableReader True s"
proof -
  let ?ls = "addEventListener (''mouseover'', ReaderHover)
               (addEventListener (''focusin'', ReaderFocus) (doc_listeners s))"
  have "addEventListener (''mouseover'', ReaderHover) (addEventListener (''focusin'', ReaderFocus) ?ls) = ?ls"
    by (simp add: add_present add_member add_member_other)
  then show ?thesis
    by (simp add: enableReader_True_eq speak_update_commute speak_twice)
qed

lemma enableReader_False_twice:
  assumes "distinct (doc_listeners s)"
  shows "enableReader False (enableReader False s) = enableReader False s"
proof -
  let ?ls = "removeEventListener (''mouseover'', ReaderHover)
               (removeEventListener (''focusin'', ReaderFocus) (doc_listeners s))"
  have "(''focusin'', ReaderFocus) \<notin> set ?ls" "(''mouseover'', ReaderHover) \<notin> set ?ls"
    using assms by (simp_all add: remove_gone remove_distinct remove_other)
  then have "removeEventListener (''mouseover'', ReaderHover) (removeEventListener (''focusin'', ReaderFocus) ?ls) = ?ls"
    by (simp add: remove_absent)
  then show ?thesis
    by (simp add: enableReader_False_eq stopSpeech_update_commute stopSpeech_twice)
qed

lemma enableReader_True_active:
  assumes "readerActive s" "(''focusin'', ReaderFocus) \<in> set (doc_listeners s)"
    "(''mouseover'', ReaderHover) \<in> set (doc_listeners s)"
  shows "enableReader True s = speak onboarding True s"
proof -
  have "s\<lparr>readerActive := True, doc_listeners := doc_listeners s\<rparr> = s"
    using assms(1) by (cases s) simp
  then show ?thesis using assms(2,3) by (simp add: enableReader_True_eq add_present)
qed

lemma enableReader_False_inactive:
  assumes "\<not> readerActive s" "(''focusin'', ReaderFocus) \<notin> set (doc_listeners s)"
    "(''mouseover'', ReaderHover) \<notin> set (doc_listeners s)"
  shows "enableReader False s = stopSpeech s"
proof -
  have "(stopSpeech s)\<lparr>readerActive := False, doc_listeners := doc_listeners s\<rparr> = stopSpeech s"
    using assms(1) by (cases s) (simp add: stopSpeech_def split: option.splits)
  then show ?thesis using assms(2,3) by (simp add: enableReader_False_eq remove_absent)
qed

lemma init_sample_listeners: "doc_listeners (init sample_platform sample_env) = [(''keydown'', EscapeKey)]"
  "readerActive (init sample_platform sample_env) = False"
  by (simp_all add: init_def Let_def init_sample_prefs sample_env_def loadPrefs_def Object_assign_def
      empty_object_def defaults_def addEventListener_def)

lemma region_set_region_same: "region u (set_region u t s) = map_option (\<lambda>_. t) (region u s)"
  by (simp add: region_def set_region_def)

lemma region_set_region_some: "region u s \<noteq> None \<Longrightarrow> region u (set_region v t s) \<noteq> None"
  by (auto simp add: region_def set_region_def)

lemma region_raf_queue [simp]: "region u (s\<lparr>raf_queue := q\<rparr>) = region u s"
  by (simp add: region_def)

lemma region_upd_panel [simp]: "region u (upd_panel a g s) = region u s"
  by (simp add: region_def)

lemma region_run_callback: "region u s \<noteq> None \<Longrightarrow> region u (run_callback c s) \<noteq> None"
  by (cases c) (simp_all add: region_set_region_some)

lemma region_fold: "region u s \<noteq> None \<Longrightarrow> region u (fold run_callback cs s) \<noteq> None"
proof (induction cs arbitrary: s)
  case Nil
  then show ?case by simp
next
  case (Cons c cs)
  have "region u (run_callback c s) \<noteq> None" using Cons.prems by (rule region_run_callback)
  then have "region u (fold run_callback cs (run_callback c s)) \<noteq> None" by (rule Cons.IH)
  then show ?case by simp
qed

lemma announce_absent: "region u s = None \<Longrightarrow> announce m u s = s"
  by (simp add: announce_def)

lemma announce_clears: "region u s \<noteq> None \<Longrightarrow> region u (announce m u s) = Some []"
  by (auto simp add: announce_def Let_def region_set_region_same)

lemma announce_then_frame:
  assumes "region u s \<noteq> None"
  shows "region u (frame (announce m u s)) = Some m"
proof -
  let ?s0 = "(set_region u [] s)\<lparr>raf_queue := []\<rparr>"
  have a: "announce m u s = (set_region u [] s)\<lparr>raf_queue := raf_queue s @ [SetText u m]\<rparr>"
    using assms by (auto simp add: announce_def Let_def)
  have "region u ?s0 \<noteq> None" using assms by (simp add: region_set_region_some)
  then have "region u (fold run_callback (raf_queue s) ?s0) \<noteq> None" by (rule region_fold)
  then have "region u (set_region u m (fold run_callback (raf_queue s) ?s0)) = Some m"
    by (auto simp add: region_set_region_same)
  then show ?thesis by (simp add: a frame_def)
qed

lemma init_regions: "notificationArea (init P e) = env_notification e" "alertArea (init P e) = env_alert e"
  "raf_queue (init P e) = []"
  by (simp_all add: init_def Let_def)

lemma region_init_sample: "region False (init sample_platform sample_env) = Some []" "region True (init sample_platform sample_env) = Some []"
  by (simp_all add: region_def init_regions sample_env_def)

lemma reader_just_on:
  "speechSynthesis (run sample_platform [PanelClick BtnReader] (init sample_platform sample_env))
     = Some [\<lparr>u_text = onboarding, u_lang = ''es-ES'', u_rate = 95\<rparr>]"
  "readerActive (run sample_platform [PanelClick BtnReader] (init sample_platform sample_env))"
  by (simp_all add: init_panels init_sample_prefs defaults_def Let_def enableReader_queue
      init_def sample_env_def loadPrefs_def Object_assign_def empty_object_def)

section \<open>The claims\<close>

subsection \<open>C1: the record stays within the schema\<close>

text \<open>
  Claim C1 does not hold of the record that the page load makes.
  \<^verbatim>\<open>Object.assign({}, defaults, loadPrefs())\<close> takes every stored property as it is:
  from a stored scale 7 and contrast \<^verbatim>\<open>sepia\<close> the record has the scale 7 and the
  contrast \<^verbatim>\<open>sepia\<close>, the root font size is set from 7, and the record is not within
  the schema. From a stored scale 1.5, which is within the bounds and passes the guard
  of the increment button, the record has the scale 1.5, and after a click on the
  increment button the scale 2.5.
\<close>

theorem stored_values_are_not_validated:
  "fontScale (prefs (init P (stored_env stored_out_of_range))) = Val (JNum 7) \<and>
   contrast (prefs (init P (stored_env stored_out_of_range))) = JStr ''sepia'' \<and>
   fontSize (html (init P (stored_env stored_out_of_range))) = Fin 7 \<and>
   \<not> valid_prefs (prefs (init P (stored_env stored_out_of_range))) \<and>
   fontScale (prefs (init P (stored_env stored_fraction))) = Val (JNum (3 / 2)) \<and>
   \<not> valid_prefs (prefs (init P (stored_env stored_fraction))) \<and>
   fontScale (prefs (step P (PanelClick BtnFontInc) (init P (stored_env stored_fraction))))
     = Val (JNum (5 / 2)) \<and>
   \<not> valid_prefs (prefs (step P (PanelClick BtnFontInc) (init P (stored_env stored_fraction))))"
proof -
  let ?a = "init P (stored_env stored_out_of_range)"
  let ?b = "init P (stored_env stored_fraction)"
  have pa: "prefs ?a = defaults\<lparr>fontScale := Val (JNum 7), contrast := JStr ''sepia''\<rparr>"
    by (simp add: prefs_init stored_env_def sample_env_def loadPrefs_def Object_assign_def
        defaults_def stored_out_of_range_def empty_object_def assigned_def)
  have pb: "prefs ?b = defaults\<lparr>fontScale := Val (JNum (3 / 2))\<rparr>"
    by (simp add: prefs_init stored_env_def sample_env_def loadPrefs_def Object_assign_def
        defaults_def stored_fraction_def empty_object_def assigned_def)
  have ha: "fontSize (html ?a) = ToNumber P (fontScale (prefs ?a))"
    by (simp add: init_def Let_def applyAll_def applyFontScale_def applyContrast_def
        applySpacing_def applyDyslexia_def applyHighlightLinks_def applyBigCursor_def
        enableReader_def speak_def stopSpeech_def split: option.split)
  have a1: "fontScale (prefs ?a) = Val (JNum 7)" "contrast (prefs ?a) = JStr ''sepia''"
    unfolding pa by simp_all
  have a2: "fontSize (html ?a) = Fin 7" unfolding ha a1 by (simp add: ToNumber_def)
  have a3: "\<not> valid_prefs (prefs ?a)" unfolding valid_prefs_def a1 by (simp add: contrasts_def)
  have b1: "fontScale (prefs ?b) = Val (JNum (3 / 2))" unfolding pb by simp
  have b2: "\<not> valid_prefs (prefs ?b)" unfolding valid_prefs_def b1 by simp
  have d: "elems_panel ?b \<in> set (click_delegation ?b)" by (simp add: init_panels)
  have g: "\<not> js_ge (ToNumber P (fontScale (prefs ?b))) 2"
    unfolding b1 by (simp add: ToNumber_def js_ge_def)
  have j: "js_add P (ToNumber P (fontScale (prefs ?b))) (Fin 1) = Fin (5 / 2)"
    unfolding b1 by (simp add: ToNumber_def js_add_def is_double_def)
  have b3: "fontScale (prefs (step P (PanelClick BtnFontInc) ?b)) = Val (JNum (5 / 2))"
    using d g j by (simp add: Let_def updateFontUI_def persist_def upd_panel_def of_num_def)
  have b4: "\<not> valid_prefs (prefs (step P (PanelClick BtnFontInc) ?b))"
    unfolding valid_prefs_def b3 by simp
  show ?thesis using a1 a2 a3 b1 b2 b3 b4 by blast
qed

subsection \<open>C2: the toggles show the record\<close>

text \<open>
  Claim C2 does not hold of the panel that the page load builds from a stored value
  that is not a boolean. From a stored \<open>spacing\<close> that is the string \<^verbatim>\<open>false\<close>, the
  record has that string, and the spacing toggle of the built panel has the class
  \<^verbatim>\<open>is-active\<close> and the label \<^verbatim>\<open>Activado\<close>, by the truth of the string, and
  \<^verbatim>\<open>aria-pressed="false"\<close>, by the string itself. The dispatch of a click on
  another control, here the increment button, leaves the record field and the toggle
  as they are, so after that dispatch the toggle does not show the field.
\<close>

theorem stored_string_breaks_toggle:
  "spacing (prefs (init P (stored_env stored_string))) = JStr ''false'' \<and>
   btn_spacing (panels (init P (stored_env stored_string)) ! elems_panel (init P (stored_env stored_string)))
     = \<lparr>is_active = True, aria_pressed = ''false'', label_text = ''Activado''\<rparr> \<and>
   \<not> rendered (init P (stored_env stored_string)) \<and>
   spacing (prefs (step P (PanelClick BtnFontInc) (init P (stored_env stored_string)))) = JStr ''false'' \<and>
   btn_spacing (panels (step P (PanelClick BtnFontInc) (init P (stored_env stored_string)))
       ! elems_panel (step P (PanelClick BtnFontInc) (init P (stored_env stored_string))))
     = \<lparr>is_active = True, aria_pressed = ''false'', label_text = ''Activado''\<rparr> \<and>
   \<not> rendered (step P (PanelClick BtnFontInc) (init P (stored_env stored_string)))"
proof -
  let ?s0 = "init P (stored_env stored_string)"
  let ?s1 = "step P (PanelClick BtnFontInc) ?s0"
  have p: "prefs ?s0 = defaults\<lparr>spacing := JStr ''false''\<rparr>"
    by (simp add: prefs_init stored_env_def sample_env_def loadPrefs_def Object_assign_def
        defaults_def stored_string_def empty_object_def assigned_def)
  have sp: "spacing (prefs ?s0) = JStr ''false''" unfolding p by simp
  have t0: "btn_spacing (panels ?s0 ! elems_panel ?s0)
              = \<lparr>is_active = True, aria_pressed = ''false'', label_text = ''Activado''\<rparr>"
    by (simp add: init_panels buildPanel_def buildToggle_def sp truthy_def ToString_def
        attribute_value_def plain_def)
  have r0: "\<not> rendered ?s0"
    unfolding rendered_def shows_toggle_def t0 sp by (simp add: truthy_def str_bool_def)
  have fs: "fontScale (prefs ?s0) = scale 0" unfolding p by (simp add: defaults_scale)
  have l: "elems_panel ?s0 < length (panels ?s0)" "elems_panel ?s0 \<in> set (click_delegation ?s0)"
    by (simp_all add: init_panels)
  have st: "?s1 = panel_click P (elems_panel ?s0) BtnFontInc ?s0" using l(2) by simp
  have p1: "prefs ?s1 = (prefs ?s0)\<lparr>fontScale := scale (0 + 1)\<rparr>"
    unfolding st using font_inc_steps(1) [OF fs _ _ l(1), of P "elems_panel ?s0"]
    by (simp del: panel_click.simps)
  have sp1: "spacing (prefs ?s1) = JStr ''false''" unfolding p1 using sp by simp
  have g: "\<not> js_ge (ToNumber P (fontScale (prefs ?s0))) 2" unfolding fs by (simp add: js_ge_def)
  have t1: "btn_spacing (panels ?s1 ! elems_panel ?s1) = btn_spacing (panels ?s0 ! elems_panel ?s0)"
    unfolding st using g l(1) by (simp add: Let_def updateFontUI_def persist_def upd_panel_def)
  have r1: "\<not> rendered ?s1"
    unfolding rendered_def shows_toggle_def t1 t0 sp1 by (simp add: truthy_def str_bool_def)
  show ?thesis using sp t0 r0 sp1 t1 r1 by simp
qed

subsection \<open>C3: saving and loading\<close>

text \<open>
  Claim C3 as it is written has no condition on the storage. \<^verbatim>\<open>savePrefs\<close> swallows
  a refused write: on a storage that is full the record with \<open>spacing\<close> on is not
  written, and what is loaded and merged afterwards is not that record.
\<close>

theorem save_swallowed_breaks_roundtrip:
  "Object_assign defaults (loadPrefs (savePrefs spaced_prefs full_storage)) \<noteq> spaced_prefs"
  by (simp add: savePrefs_def full_storage_def loadPrefs_def Object_assign_def defaults_def
      empty_object_def spaced_prefs_def assigned_def)

text \<open>
  Claim C3, amended. When the storage accepts the write and the read, \<^verbatim>\<open>savePrefs\<close>
  of a record followed by \<^verbatim>\<open>loadPrefs\<close> merged with the defaults gives that record,
  for every record that JSON can hold: one whose scale is a JSON value (any, in range
  or not) and which has no own property \<^verbatim>\<open>__proto__\<close>, as every record that the
  script makes. When the storage refuses the read, has no item, or has an item that
  does not parse or parses to a falsy value, \<^verbatim>\<open>loadPrefs\<close> returns the empty object
  and the merge is the default record.
\<close>

theorem prefs_roundtrip:
  "(\<not> set_throws st \<and> \<not> get_throws st \<and> fontScale r = Val j \<and> others r ''__proto__'' = None \<longrightarrow>
      Object_assign defaults (loadPrefs (savePrefs r st)) = r) \<and>
   (get_throws st \<or> item st = NoItem \<or> item st = BadText \<or> item st = FalsyJson \<longrightarrow>
      Object_assign defaults (loadPrefs st) = defaults)"
proof -
  have saved: "Object_assign defaults (loadPrefs (savePrefs r st)) = r"
    if w: "\<not> set_throws st" and g: "\<not> get_throws st"
      and v: "fontScale r = Val j" and n: "others r ''__proto__'' = None"
  proof -
    have "item (savePrefs r st) = Props (stringify r)"
      and "get_throws (savePrefs r st) = get_throws st"
      using w by (simp_all add: savePrefs_def)
    then have "loadPrefs (savePrefs r st) = stringify r"
      using g by (simp add: loadPrefs_def)
    then show ?thesis by (simp add: assign_stringify [OF v n])
  qed
  have unread: "Object_assign defaults (loadPrefs st) = defaults"
    if "get_throws st \<or> item st = NoItem \<or> item st = BadText \<or> item st = FalsyJson"
  proof -
    have "loadPrefs st = empty_object" using that by (auto simp add: loadPrefs_def)
    then show ?thesis by (simp add: assign_empty)
  qed
  show ?thesis using saved unread by blast
qed

theorem prefs_roundtrip_witness:
  "\<not> set_throws working_storage \<and> \<not> get_throws working_storage \<and>
   fontScale spaced_prefs = Val (JNum 0) \<and> others spaced_prefs ''__proto__'' = None \<and>
   Object_assign defaults (loadPrefs (savePrefs spaced_prefs working_storage)) = spaced_prefs \<and>
   item working_storage = BadText \<and>
   Object_assign defaults (loadPrefs working_storage) = defaults"
proof -
  have a: "\<not> set_throws working_storage" "\<not> get_throws working_storage"
    "item working_storage = BadText"
    by (simp_all add: working_storage_def)
  have b: "fontScale spaced_prefs = Val (JNum 0)" "others spaced_prefs ''__proto__'' = None"
    by (simp_all add: spaced_prefs_def defaults_def)
  show ?thesis
    using prefs_roundtrip [of working_storage spaced_prefs "JNum 0"] a b by blast
qed

subsection \<open>C4: properties outside the schema\<close>




subsection \<open>C5: one utterance at a time\<close>

text \<open>
  Claim C5. After every sequence of events from the page load the speech service holds
  at most one utterance. A call of \<^verbatim>\<open>speak\<close> that is not turned away (there is a
  speech service, and the reader is active or the call is forced) leaves the new
  utterance alone in the queue, whatever was in it; a call that is turned away changes
  nothing. Switching the reader off leaves the queue empty.
\<close>

theorem one_utterance_in_flight:
  "in_flight (run P es (init P e)) \<le> 1 \<and>
   (speechSynthesis s \<noteq> None \<and> (readerActive s \<or> force) \<longrightarrow>
      speechSynthesis (speak t force s) = Some [\<lparr>u_text = t, u_lang = ''es-ES'', u_rate = 95\<rparr>]) \<and>
   (speechSynthesis s = None \<or> (\<not> readerActive s \<and> \<not> force) \<longrightarrow> speak t force s = s) \<and>
   (speechSynthesis s \<noteq> None \<longrightarrow> speechSynthesis (enableReader False s) = Some [])"
proof -
  have "in_flight (run P es (init P e)) \<le> Suc 0" by (rule in_flight_run [OF in_flight_init])
  moreover have "speechSynthesis s = None \<or> (\<not> readerActive s \<and> \<not> force) \<longrightarrow> speak t force s = s"
    by (auto simp add: speak_def)
  ultimately show ?thesis
    by (auto simp add: speak_queue enableReader_queue)
qed

theorem one_utterance_in_flight_witness:
  "in_flight (run sample_platform [PanelClick BtnReader, FocusIn sample_dom sample_heading,
                   MouseOver sample_dom (Some captioned_button)] (init sample_platform sample_env)) \<le> 1 \<and>
   speechSynthesis (run sample_platform [PanelClick BtnReader] (init sample_platform sample_env))
     = Some [\<lparr>u_text = onboarding, u_lang = ''es-ES'', u_rate = 95\<rparr>] \<and>
   readerActive (run sample_platform [PanelClick BtnReader] (init sample_platform sample_env)) \<and>
   speechSynthesis (speak ''Enlace: Inicio'' False (run sample_platform [PanelClick BtnReader] (init sample_platform sample_env)))
     = Some [\<lparr>u_text = ''Enlace: Inicio'', u_lang = ''es-ES'', u_rate = 95\<rparr>] \<and>
   speechSynthesis (enableReader False (run sample_platform [PanelClick BtnReader] (init sample_platform sample_env))) = Some [] \<and>
   \<not> readerActive (init sample_platform sample_env) \<and>
   speak ''Enlace: Inicio'' False (init sample_platform sample_env) = init sample_platform sample_env"
proof -
  have n: "speechSynthesis (run sample_platform [PanelClick BtnReader] (init sample_platform sample_env)) \<noteq> None"
    by (simp only: reader_just_on) simp
  have i: "\<not> readerActive (init sample_platform sample_env)" by (simp add: init_sample_listeners)
  show ?thesis
    using one_utterance_in_flight
        [of sample_platform "[PanelClick BtnReader, FocusIn sample_dom sample_heading, MouseOver sample_dom (Some captioned_button)]"
          sample_env "run sample_platform [PanelClick BtnReader] (init sample_platform sample_env)" False "''Enlace: Inicio''"]
      one_utterance_in_flight [of sample_platform "[]" sample_env "init sample_platform sample_env" False "''Enlace: Inicio''"]
      reader_just_on n i
    by blast
qed

subsection \<open>C6: the font stepper\<close>




subsection \<open>C7: the readout\<close>



subsection \<open>C8: switching the reader on or off twice\<close>

text \<open>
  Claim C8 as it is written calls \<^verbatim>\<open>enableReader(true)\<close> on an active reader a
  no-op. The call speaks the onboarding text again: on the page where the reader is on,
  both listeners are attached and the first utterance has ended, the call changes the page.
\<close>

theorem reactivation_speaks_again:
  "readerActive reader_on \<and>
   (''focusin'', ReaderFocus) \<in> set (doc_listeners reader_on) \<and>
   (''mouseover'', ReaderHover) \<in> set (doc_listeners reader_on) \<and>
   enableReader True reader_on \<noteq> reader_on"
proof -
  have "speechSynthesis (enableReader True reader_on) \<noteq> speechSynthesis reader_on"
    by (simp add: enableReader_queue reader_on_fields)
  then have "enableReader True reader_on \<noteq> reader_on" by auto
  then show ?thesis by (simp add: reader_on_fields)
qed

text \<open>
  Claim C8, amended. On a document whose listener list has no entry twice: after two
  calls of \<^verbatim>\<open>enableReader(true)\<close> exactly one focus listener and one hover
  listener are attached, and the page is the same as after one call; on a reader that
  is active with both listeners attached the call does what speaking the onboarding
  text does, and nothing else. After \<^verbatim>\<open>enableReader(false)\<close> neither listener is
  attached, two calls leave the same page as one, and on a reader that is inactive with
  no listener attached the call does what \<^verbatim>\<open>stopSpeech\<close> does, and nothing else.
\<close>

theorem reader_switch_idempotent:
  assumes "distinct (doc_listeners s)"
  shows "count_list (doc_listeners (enableReader True (enableReader True s))) (''focusin'', ReaderFocus) = 1 \<and>
         count_list (doc_listeners (enableReader True (enableReader True s))) (''mouseover'', ReaderHover) = 1 \<and>
         enableReader True (enableReader True s) = enableReader True s \<and>
         (readerActive s \<and> (''focusin'', ReaderFocus) \<in> set (doc_listeners s) \<and>
          (''mouseover'', ReaderHover) \<in> set (doc_listeners s) \<longrightarrow>
            enableReader True s = speak onboarding True s) \<and>
         (''focusin'', ReaderFocus) \<notin> set (doc_listeners (enableReader False s)) \<and>
         (''mouseover'', ReaderHover) \<notin> set (doc_listeners (enableReader False s)) \<and>
         enableReader False (enableReader False s) = enableReader False s \<and>
         (\<not> readerActive s \<and> (''focusin'', ReaderFocus) \<notin> set (doc_listeners s) \<and>
          (''mouseover'', ReaderHover) \<notin> set (doc_listeners s) \<longrightarrow>
            enableReader False s = stopSpeech s)"
proof -
  let ?on = "addEventListener (''mouseover'', ReaderHover)
               (addEventListener (''focusin'', ReaderFocus) (doc_listeners s))"
  have d: "distinct ?on" using assms by (simp add: add_distinct)
  have m: "(''focusin'', ReaderFocus) \<in> set ?on" "(''mouseover'', ReaderHover) \<in> set ?on"
    by (simp_all add: add_member add_member_other)
  have c: "count_list (doc_listeners (enableReader True s)) (''focusin'', ReaderFocus) = 1"
    "count_list (doc_listeners (enableReader True s)) (''mouseover'', ReaderHover) = 1"
    using count_one [OF d m(1)] count_one [OF d m(2)] by (simp_all add: enableReader_listeners)
  have g: "(''focusin'', ReaderFocus) \<notin> set (doc_listeners (enableReader False s))"
    "(''mouseover'', ReaderHover) \<notin> set (doc_listeners (enableReader False s))"
    using assms by (simp_all add: enableReader_listeners remove_gone remove_distinct remove_other)
  show ?thesis
    using c g enableReader_True_twice [of s] enableReader_False_twice [OF assms]
      enableReader_True_active [of s] enableReader_False_inactive [of s]
    by simp
qed

theorem reader_switch_idempotent_witness:
  "distinct (doc_listeners reader_on) \<and>
   count_list (doc_listeners (enableReader True (enableReader True reader_on))) (''focusin'', ReaderFocus) = 1 \<and>
   count_list (doc_listeners (enableReader True (enableReader True reader_on))) (''mouseover'', ReaderHover) = 1 \<and>
   enableReader True (enableReader True reader_on) = enableReader True reader_on \<and>
   enableReader True reader_on = speak onboarding True reader_on \<and>
   distinct (doc_listeners (init sample_platform sample_env)) \<and>
   enableReader False (enableReader False (init sample_platform sample_env)) = enableReader False (init sample_platform sample_env) \<and>
   enableReader False (init sample_platform sample_env) = stopSpeech (init sample_platform sample_env)"
proof -
  have d1: "distinct (doc_listeners reader_on)" by (simp add: reader_on_fields)
  have d2: "distinct (doc_listeners (init sample_platform sample_env))" by (simp add: init_sample_listeners)
  have a: "readerActive reader_on \<and> (''focusin'', ReaderFocus) \<in> set (doc_listeners reader_on) \<and>
           (''mouseover'', ReaderHover) \<in> set (doc_listeners reader_on)"
    by (simp add: reader_on_fields)
  have b: "\<not> readerActive (init sample_platform sample_env) \<and>
           (''focusin'', ReaderFocus) \<notin> set (doc_listeners (init sample_platform sample_env)) \<and>
           (''mouseover'', ReaderHover) \<notin> set (doc_listeners (init sample_platform sample_env))"
    by (simp add: init_sample_listeners)
  show ?thesis
    using reader_switch_idempotent [OF d1] reader_switch_idempotent [OF d2] a b d1 d2
    by blast
qed

subsection \<open>C9: announcements\<close>

text \<open>
  Claim C9 as it is written promises a clear and a set that can be told apart for each
  of two calls in succession. When the second call comes before the next animation
  frame, the region is empty already and its clear changes nothing: after a first
  rendered announcement of the cart message, a call makes two such mutations, and a call
  right after that call does not.
\<close>

theorem second_call_before_frame_not_distinct:
  "clear_then_set cart_message False announced_once \<and>
   \<not> clear_then_set cart_message False (announce cart_message False announced_once)"
proof -
  have n0: "region False (init sample_platform sample_env) \<noteq> None" by (simp add: region_init_sample)
  have r1: "region False announced_once = Some cart_message"
    unfolding announced_once_def using announce_then_frame [OF n0] .
  then have n1: "region False announced_once \<noteq> None" by simp
  have r2: "region False (announce cart_message False announced_once) = Some []"
    using announce_clears [OF n1] .
  then have n2: "region False (announce cart_message False announced_once) \<noteq> None" by simp
  have r3: "region False (announce cart_message False (announce cart_message False announced_once)) = Some []"
    using announce_clears [OF n2] .
  have r4: "region False (frame (announce cart_message False announced_once)) = Some cart_message"
    using announce_then_frame [OF n1] .
  have ne: "cart_message \<noteq> []" by (simp add: cart_message_def)
  show ?thesis using r1 r2 r3 r4 ne by (simp add: clear_then_set_def)
qed

text \<open>
  Claim C9, amended. When the target region is absent, \<^verbatim>\<open>announce\<close> changes
  nothing. Otherwise the text of the region is empty right after the call and is the
  message after the next animation frame; so once an announcement of a non-empty
  message has been rendered, announcing the same message again makes a clear and then a
  set that both change the text of the region.
\<close>

theorem announce_clear_then_set:
  "(region u s = None \<longrightarrow> announce m u s = s) \<and>
   (region u s \<noteq> None \<longrightarrow>
      region u (announce m u s) = Some [] \<and> region u (frame (announce m u s)) = Some m) \<and>
   (region u s \<noteq> None \<and> m \<noteq> [] \<longrightarrow> clear_then_set m u (frame (announce m u s)))"
proof -
  have "clear_then_set m u (frame (announce m u s))" if r: "region u s \<noteq> None" and m: "m \<noteq> []"
  proof -
    let ?s1 = "frame (announce m u s)"
    have r1: "region u ?s1 = Some m" using announce_then_frame [OF r] .
    then have n1: "region u ?s1 \<noteq> None" by simp
    show ?thesis
      using announce_clears [OF n1, of m] announce_then_frame [OF n1, of m] r1 m
      by (simp add: clear_then_set_def)
  qed
  then show ?thesis
    using announce_absent [of u s m] announce_clears [of u s m] announce_then_frame [of u s m]
    by blast
qed

theorem announce_clear_then_set_witness:
  "region True ((init sample_platform sample_env)\<lparr>alertArea := None\<rparr>) = None \<and>
   announce cart_message True ((init sample_platform sample_env)\<lparr>alertArea := None\<rparr>) = (init sample_platform sample_env)\<lparr>alertArea := None\<rparr> \<and>
   region False (init sample_platform sample_env) \<noteq> None \<and> cart_message \<noteq> [] \<and>
   region False (announce cart_message False (init sample_platform sample_env)) = Some [] \<and>
   region False (frame (announce cart_message False (init sample_platform sample_env))) = Some cart_message \<and>
   clear_then_set cart_message False (frame (announce cart_message False (init sample_platform sample_env)))"
proof -
  have a: "region True ((init sample_platform sample_env)\<lparr>alertArea := None\<rparr>) = None" by (simp add: region_def)
  have b: "region False (init sample_platform sample_env) \<noteq> None" by (simp add: region_init_sample)
  have c: "cart_message \<noteq> []" by (simp add: cart_message_def)
  show ?thesis
    using announce_clear_then_set [of True "(init sample_platform sample_env)\<lparr>alertArea := None\<rparr>" cart_message]
      announce_clear_then_set [of False "init sample_platform sample_env" cart_message] a b c
    by blast
qed

subsection \<open>C10: the label of an element\<close>

text \<open>
  Claim C10 as it is written says that \<^verbatim>\<open>getLabel\<close> never returns the empty string
  and that the guard of \<^verbatim>\<open>readerFocus\<close> is never taken. For a button whose
  \<^verbatim>\<open>aria-labelledby\<close> names an element with blank text \<^verbatim>\<open>getLabel\<close> returns the
  empty string, and on a page whose reader is on, where the focus on a heading is
  spoken, the focus on that button returns at the guard and nothing is spoken.
\<close>

theorem referenced_blank_label_is_empty:
  "getLabel sample_dom captioned_button = Inr [] \<and>
   readerActive reader_on \<and> speechSynthesis reader_on = Some [] \<and>
   readerFocus sample_dom captioned_button reader_on = reader_on \<and>
   speechSynthesis (readerFocus sample_dom sample_heading reader_on)
     = Some [\<lparr>u_text = ''Encabezado nivel 2: Env'' @ [CHR 0xED] @ ''os'', u_lang = ''es-ES'', u_rate = 95\<rparr>]"
proof -
  have b: "getLabel sample_dom captioned_button = Inr []"
    by (simp add: getLabel_def sample_dom_def captioned_button_def blank_span_def truthy_attr_def
        getAttribute_def labelledby_ref_def getElementById_def trim_def is_space_def)
  have h: "getLabel sample_dom sample_heading = Inr (''Env'' @ [CHR 0xED] @ ''os'')"
    by (simp add: getLabel_def sample_dom_def sample_heading_def truthy_attr_def
        getAttribute_def labelledby_ref_def trim_def is_space_def or_str_def)
  have t: "toLowerCase (tagName sample_heading) = ''h2''"
    by (simp add: sample_heading_def toLowerCase_def lower_char_def)
  have "speechSynthesis (readerFocus sample_dom sample_heading reader_on)
     = Some [\<lparr>u_text = ''Encabezado nivel 2: Env'' @ [CHR 0xED] @ ''os'', u_lang = ''es-ES'', u_rate = 95\<rparr>]"
    using reader_on_fields(1,3)
    by (simp add: readerFocus_def Let_def h t heading_level_def speak_queue)
  then show ?thesis
    using b reader_on_fields(1,3) by (simp add: readerFocus_def Let_def)
qed

text \<open>
  Claim C10, amended. For an element with a tag name, \<^verbatim>\<open>getLabel\<close> throws exactly when
  the element is an \<^verbatim>\<open>INPUT\<close> without a truthy \<^verbatim>\<open>aria-label\<close> and without a found
  \<^verbatim>\<open>aria-labelledby\<close> target and \<^verbatim>\<open>querySelector\<close> throws for the selector made
  from its id. When it returns, it returns the empty string exactly when it returns
  the trimmed text of a referenced element (the target of \<^verbatim>\<open>aria-labelledby\<close>, or for
  an \<^verbatim>\<open>INPUT\<close> its \<^verbatim>\<open>label\<close>) and that text is empty. The last fallback is the
  trimmed text of the element cut to at most 180 characters, and the lowercased tag
  name when that text is empty. When the label is empty the guard of
  \<^verbatim>\<open>readerFocus\<close> returns without speaking; when the label is not empty, the reader
  is on and there is a speech service, \<^verbatim>\<open>readerFocus\<close> speaks the label after its
  prefix.
\<close>

theorem label_nonempty_unless_reference_blank:
  assumes "tagName el \<noteq> []"
  shows "(getLabel d el = Inl SyntaxError \<longleftrightarrow>
            truthy_attr (getAttribute el ''aria-label'') = None \<and> labelledby_ref d el = None \<and>
            tagName el = ''INPUT'' \<and> querySelector d (label_selector (el_id el)) = Inl SyntaxError) \<and>
         (getLabel d el = Inr [] \<longleftrightarrow>
            truthy_attr (getAttribute el ''aria-label'') = None \<and>
            ((\<exists>ref. labelledby_ref d el = Some ref \<and> trim (textContent ref) = []) \<or>
             (labelledby_ref d el = None \<and> tagName el = ''INPUT'' \<and>
              (\<exists>lbl. query_label_for d (el_id el) = Inr (Some lbl) \<and> trim (textContent lbl) = [])))) \<and>
         (truthy_attr (getAttribute el ''aria-label'') = None \<and> labelledby_ref d el = None \<and>
          tagName el \<noteq> ''IMG'' \<and> tagName el \<noteq> ''INPUT'' \<longrightarrow>
            getLabel d el = Inr (if trim (textContent el) \<noteq> [] then take 180 (trim (textContent el))
                                 else toLowerCase (tagName el)) \<and>
            (trim (textContent el) \<noteq> [] \<longrightarrow> (\<exists>l. getLabel d el = Inr l \<and> length l \<le> 180))) \<and>
         (getLabel d el = Inr [] \<longrightarrow> readerFocus d el s = s) \<and>
         (\<forall>l. getLabel d el = Inr l \<and> l \<noteq> [] \<and> readerActive s \<and> speechSynthesis s \<noteq> None \<longrightarrow>
            (\<exists>prefix. speechSynthesis (readerFocus d el s)
               = Some [\<lparr>u_text = prefix @ l, u_lang = ''es-ES'', u_rate = 95\<rparr>]))"
proof -
  have e: "getLabel d el = Inl SyntaxError \<longleftrightarrow>
            truthy_attr (getAttribute el ''aria-label'') = None \<and> labelledby_ref d el = None \<and>
            tagName el = ''INPUT'' \<and> querySelector d (label_selector (el_id el)) = Inl SyntaxError"
    using getLabel_error_iff [of d el] by (simp add: query_label_for_def)
  have f: "getLabel d el = Inr (if trim (textContent el) \<noteq> [] then take 180 (trim (textContent el))
                                 else toLowerCase (tagName el)) \<and>
            (trim (textContent el) \<noteq> [] \<longrightarrow> (\<exists>l. getLabel d el = Inr l \<and> length l \<le> 180))"
    if "truthy_attr (getAttribute el ''aria-label'') = None \<and> labelledby_ref d el = None \<and>
          tagName el \<noteq> ''IMG'' \<and> tagName el \<noteq> ''INPUT''"
    using getLabel_fallback [of el d] that by simp
  have g: "getLabel d el = Inr [] \<longrightarrow> readerFocus d el s = s"
    using readerFocus_silent [of d el s] by blast
  have sp: "\<forall>l. getLabel d el = Inr l \<and> l \<noteq> [] \<and> readerActive s \<and> speechSynthesis s \<noteq> None \<longrightarrow>
            (\<exists>prefix. speechSynthesis (readerFocus d el s)
               = Some [\<lparr>u_text = prefix @ l, u_lang = ''es-ES'', u_rate = 95\<rparr>])"
    using readerFocus_speaks [of d el _ s] by blast
  show ?thesis
    using e getLabel_empty_iff [OF assms, of d] f g sp by blast
qed

theorem label_nonempty_unless_reference_blank_witness:
  "tagName sample_heading \<noteq> [] \<and>
   getLabel sample_dom sample_heading = Inr (''Env'' @ [CHR 0xED] @ ''os'') \<and>
   readerActive reader_on \<and> speechSynthesis reader_on \<noteq> None \<and>
   (\<exists>prefix. speechSynthesis (readerFocus sample_dom sample_heading reader_on)
      = Some [\<lparr>u_text = prefix @ ''Env'' @ [CHR 0xED] @ ''os'', u_lang = ''es-ES'', u_rate = 95\<rparr>]) \<and>
   tagName captioned_button \<noteq> [] \<and>
   getLabel sample_dom captioned_button = Inr [] \<and>
   readerFocus sample_dom captioned_button reader_on = reader_on \<and>
   tagName quoted_input \<noteq> [] \<and>
   getLabel sample_dom quoted_input = Inl SyntaxError"
proof -
  have h: "tagName sample_heading \<noteq> []" "truthy_attr (getAttribute sample_heading ''aria-label'') = None"
    "labelledby_ref sample_dom sample_heading = None" "tagName sample_heading \<noteq> ''IMG''"
    "tagName sample_heading \<noteq> ''INPUT''"
    by (simp_all add: sample_heading_def truthy_attr_def getAttribute_def labelledby_ref_def)
  have b: "tagName captioned_button \<noteq> []" "truthy_attr (getAttribute captioned_button ''aria-label'') = None"
    "labelledby_ref sample_dom captioned_button = Some blank_span" "trim (textContent blank_span) = []"
    by (simp_all add: captioned_button_def truthy_attr_def getAttribute_def labelledby_ref_def
        sample_dom_def getElementById_def blank_span_def trim_def is_space_def)
  have q: "tagName quoted_input \<noteq> []" "truthy_attr (getAttribute quoted_input ''aria-label'') = None"
    "labelledby_ref sample_dom quoted_input = None" "tagName quoted_input = ''INPUT''"
    "querySelector sample_dom (label_selector (el_id quoted_input)) = Inl SyntaxError"
    by (simp_all add: quoted_input_def truthy_attr_def getAttribute_def labelledby_ref_def
        sample_dom_def)
  have r: "readerActive reader_on" "speechSynthesis reader_on \<noteq> None"
    using reader_on_fields(1,3) by simp_all
  have th: "trim (textContent sample_heading) \<noteq> []" using trim_heading by simp
  have lh: "getLabel sample_dom sample_heading = Inr (''Env'' @ [CHR 0xED] @ ''os'')"
    using label_nonempty_unless_reference_blank [OF h(1), of sample_dom reader_on] h(2-5) th
    by (simp add: trim_heading)
  have sh: "\<exists>prefix. speechSynthesis (readerFocus sample_dom sample_heading reader_on)
      = Some [\<lparr>u_text = prefix @ ''Env'' @ [CHR 0xED] @ ''os'', u_lang = ''es-ES'', u_rate = 95\<rparr>]"
    using label_nonempty_unless_reference_blank [OF h(1), of sample_dom reader_on] lh r by blast
  have lb: "getLabel sample_dom captioned_button = Inr []"
    using label_nonempty_unless_reference_blank [OF b(1), of sample_dom reader_on] b(2-4) by blast
  have gb: "readerFocus sample_dom captioned_button reader_on = reader_on"
    using label_nonempty_unless_reference_blank [OF b(1), of sample_dom reader_on] lb by blast
  have lq: "getLabel sample_dom quoted_input = Inl SyntaxError"
    using label_nonempty_unless_reference_blank [OF q(1), of sample_dom reader_on] q(2-5) by blast
  show ?thesis using h(1) lh r sh b(1) lb gb q(1) lq by blast
qed

end
